theory Spec2Isabelle
  imports Complex_Main
begin

section \<open>Numbers\<close>

text \<open>
  The evaluator computes with C++ \<^verbatim>\<open>double\<close>. The model keeps the special values of
  IEEE 754 (NaN and the two infinities), because the code stores and tests them: the time
  stamp of the cache starts as NaN, the error of the Newton loop starts as \<^verbatim>\<open>INFINITY\<close>,
  and a square root or a power of a negative number is NaN. Finite values are real numbers
  and the arithmetic on them is exact: rounding, overflow and the sign of zero are not
  represented (a nonzero number divided by zero is the infinity with the sign of the
  dividend, as for a positive zero).
\<close>

datatype double = NaN | PosInf | NegInf | Finite real

fun dadd :: "double \<Rightarrow> double \<Rightarrow> double" where
  "dadd NaN b = NaN"
| "dadd a NaN = NaN"
| "dadd PosInf NegInf = NaN"
| "dadd NegInf PosInf = NaN"
| "dadd PosInf b = PosInf"
| "dadd NegInf b = NegInf"
| "dadd a PosInf = PosInf"
| "dadd a NegInf = NegInf"
| "dadd (Finite x) (Finite y) = Finite (x + y)"

fun dneg :: "double \<Rightarrow> double" where
  "dneg NaN = NaN"
| "dneg PosInf = NegInf"
| "dneg NegInf = PosInf"
| "dneg (Finite x) = Finite (- x)"

fun dmul :: "double \<Rightarrow> double \<Rightarrow> double" where
  "dmul NaN b = NaN"
| "dmul a NaN = NaN"
| "dmul PosInf PosInf = PosInf"
| "dmul PosInf NegInf = NegInf"
| "dmul NegInf PosInf = NegInf"
| "dmul NegInf NegInf = PosInf"
| "dmul PosInf (Finite y) = (if y = 0 then NaN else if 0 < y then PosInf else NegInf)"
| "dmul NegInf (Finite y) = (if y = 0 then NaN else if 0 < y then NegInf else PosInf)"
| "dmul (Finite x) PosInf = (if x = 0 then NaN else if 0 < x then PosInf else NegInf)"
| "dmul (Finite x) NegInf = (if x = 0 then NaN else if 0 < x then NegInf else PosInf)"
| "dmul (Finite x) (Finite y) = Finite (x * y)"

fun ddiv :: "double \<Rightarrow> double \<Rightarrow> double" where
  "ddiv NaN b = NaN"
| "ddiv a NaN = NaN"
| "ddiv PosInf PosInf = NaN"
| "ddiv PosInf NegInf = NaN"
| "ddiv NegInf PosInf = NaN"
| "ddiv NegInf NegInf = NaN"
| "ddiv PosInf (Finite y) = (if 0 \<le> y then PosInf else NegInf)"
| "ddiv NegInf (Finite y) = (if 0 \<le> y then NegInf else PosInf)"
| "ddiv (Finite x) PosInf = Finite 0"
| "ddiv (Finite x) NegInf = Finite 0"
| "ddiv (Finite x) (Finite y) =
     (if y = 0 then (if x = 0 then NaN else if 0 < x then PosInf else NegInf)
      else Finite (x / y))"

fun dabs :: "double \<Rightarrow> double" where
  "dabs NaN = NaN"
| "dabs PosInf = PosInf"
| "dabs NegInf = PosInf"
| "dabs (Finite x) = Finite \<bar>x\<bar>"

text \<open>The operators of C++ on doubles are written as the operators of HOL.\<close>

instantiation double :: "{plus, minus, uminus, times, inverse, abs}"
begin

definition plus_double :: "double \<Rightarrow> double \<Rightarrow> double" where
  "plus_double a b = dadd a b"

definition uminus_double :: "double \<Rightarrow> double" where
  "uminus_double a = dneg a"

definition minus_double :: "double \<Rightarrow> double \<Rightarrow> double" where
  "minus_double a b = dadd a (dneg b)"

definition times_double :: "double \<Rightarrow> double \<Rightarrow> double" where
  "times_double a b = dmul a b"

definition divide_double :: "double \<Rightarrow> double \<Rightarrow> double" where
  "divide_double a b = ddiv a b"

definition inverse_double :: "double \<Rightarrow> double" where
  "inverse_double a = ddiv (Finite 1) a"

definition abs_double :: "double \<Rightarrow> double" where
  "abs_double a = dabs a"

instance ..

end

text \<open>\<^verbatim>\<open>std::sqrt\<close>: NaN below zero.\<close>

fun dsqrt :: "double \<Rightarrow> double" where
  "dsqrt NaN = NaN"
| "dsqrt PosInf = PosInf"
| "dsqrt NegInf = NaN"
| "dsqrt (Finite x) = (if x < 0 then NaN else Finite (sqrt x))"

text \<open>
  \<^verbatim>\<open>std::pow(x, y)\<close> for an exponent \<open>y\<close> that is finite and not an integer; the code calls
  it with the literals 0.5, 0.25 and -0.75 only. The result is NaN for a negative base.
\<close>

fun dpow :: "double \<Rightarrow> real \<Rightarrow> double" where
  "dpow NaN y = NaN"
| "dpow PosInf y = (if 0 < y then PosInf else Finite 0)"
| "dpow NegInf y = (if 0 < y then PosInf else Finite 0)"
| "dpow (Finite x) y =
     (if x < 0 then NaN
      else if x = 0 then (if 0 < y then Finite 0 else PosInf)
      else Finite (x powr y))"

text \<open>\<^verbatim>\<open>a != b\<close> on doubles: true as soon as one side is NaN.\<close>

fun double_ne :: "double \<Rightarrow> double \<Rightarrow> bool" where
  "double_ne NaN b = True"
| "double_ne a NaN = True"
| "double_ne a b = (a \<noteq> b)"

text \<open>\<^verbatim>\<open>a > b\<close> and \<^verbatim>\<open>a <= b\<close> on doubles: false as soon as one side is NaN.\<close>

fun double_gt :: "double \<Rightarrow> double \<Rightarrow> bool" where
  "double_gt NaN b = False"
| "double_gt a NaN = False"
| "double_gt PosInf PosInf = False"
| "double_gt PosInf b = True"
| "double_gt a PosInf = False"
| "double_gt NegInf b = False"
| "double_gt a NegInf = True"
| "double_gt (Finite x) (Finite y) = (y < x)"

fun double_le :: "double \<Rightarrow> double \<Rightarrow> bool" where
  "double_le NaN b = False"
| "double_le a NaN = False"
| "double_le a b = (\<not> double_gt a b)"

section \<open>Graph data\<close>

text \<open>
  The classes \<^verbatim>\<open>Vertex\<close>, \<^verbatim>\<open>Edge\<close>, \<^verbatim>\<open>GraphStorage\<close> and \<^verbatim>\<open>DofMap\<close> are declared in headers
  that are not part of the sources at hand; the evaluator only calls their accessors. The
  records below hold what these accessors return.
\<close>

record physical_data =
  G0 :: double
  A0 :: double
  rho :: double
  length_pd :: double

text \<open>
  Modelled from the spec: the boundary classification of a vertex (the class \<^verbatim>\<open>Vertex\<close> is
  missing). Every vertex has exactly one classification.
\<close>

datatype flow_type =
    Inner
  | InflowPrescribed
  | FreeOutflow
  | WindkesselOutflow
  | VesselTreeOutflow
  | NonlinearCharacteristicInflow

record vertex =
  v_id :: nat
  edge_neighbors :: "nat list"
  v_type :: flow_type
  inflow_value :: "double \<Rightarrow> double"

record edge =
  e_id :: nat
  vertex_neighbors :: "nat \<times> nat"
  edge_data :: physical_data

text \<open>
  Modelled from the spec: an edge is an ordered pair of endpoint ids and points to its
  second endpoint; a leaf is a vertex of degree one (\<^verbatim>\<open>Edge::is_pointing_to\<close> and the
  predicates of \<^verbatim>\<open>Vertex\<close> are missing).
\<close>

definition is_pointing_to :: "edge \<Rightarrow> nat \<Rightarrow> bool" where
  "is_pointing_to e v = (snd (vertex_neighbors e) = v)"

definition is_leaf :: "vertex \<Rightarrow> bool" where
  "is_leaf v = (length (edge_neighbors v) = 1)"

definition is_bifurcation :: "vertex \<Rightarrow> bool" where
  "is_bifurcation v = (v_type v = Inner)"

definition is_inflow :: "vertex \<Rightarrow> bool" where
  "is_inflow v = (v_type v = InflowPrescribed)"

definition is_free_outflow :: "vertex \<Rightarrow> bool" where
  "is_free_outflow v = (v_type v = FreeOutflow)"

definition is_windkessel_outflow :: "vertex \<Rightarrow> bool" where
  "is_windkessel_outflow v = (v_type v = WindkesselOutflow)"

record graph_storage =
  num_edges :: nat
  get_edge :: "nat \<Rightarrow> edge"
  get_vertex :: "nat \<Rightarrow> vertex"
  get_active_edge_ids :: "nat list"
  get_active_vertex_ids :: "nat list"

text \<open>
  The local dof map of an edge (\<^verbatim>\<open>num_micro_vertices\<close> is \<^verbatim>\<open>num_micro_edges + 1\<close> in the
  spec's data model; it is kept as a field because the class is missing) and the dof
  indices stored at a vertex.
\<close>

record local_edge_dof_map =
  num_micro_edges :: nat
  num_micro_vertices :: nat
  num_basis_functions :: nat
  dof_indices :: "nat \<Rightarrow> nat \<Rightarrow> nat list"

record dof_map =
  get_local_dof_map :: "edge \<Rightarrow> local_edge_dof_map"
  get_vertex_dof_indices :: "vertex \<Rightarrow> nat list"

section \<open>Collaborators that are not part of the sources\<close>

text \<open>
  The functions of \<^verbatim>\<open>vessel_formulas.hpp\<close>, the finite-element evaluation of
  \<^verbatim>\<open>fe_type.hpp\<close> and the ghost exchange of the communicator are called by the evaluator
  but defined elsewhere. The evaluator is modelled for arbitrary such functions: they are
  the fields of one record that every operation takes as its first argument.
\<close>

datatype quadrature = Midpoint_Rule | Trapezoidal_Rule

text \<open>
  Modelled from the spec: the ghost exchange (the communicator is missing) is a single
  blocking call, so \<^verbatim>\<open>update_ghost_layer\<close> is a function from the vector before the
  exchange to the vector after it; which values the other workers deliver is left open.
\<close>

record collaborators =
  calculate_W1_value :: "double \<Rightarrow> double \<Rightarrow> double \<Rightarrow> double \<Rightarrow> double \<Rightarrow> double"
  calculate_W2_value :: "double \<Rightarrow> double \<Rightarrow> double \<Rightarrow> double \<Rightarrow> double \<Rightarrow> double"
  solve_W12 :: "double \<Rightarrow> double \<Rightarrow> double \<Rightarrow> double \<Rightarrow> double \<Rightarrow> double \<times> double"
  assemble_in_flow :: "double \<Rightarrow> double \<Rightarrow> bool \<Rightarrow> double \<Rightarrow> double \<Rightarrow> double \<Rightarrow> double \<Rightarrow> double"
  calculate_static_p :: "double \<Rightarrow> double \<Rightarrow> double \<Rightarrow> double"
  solve_at_nfurcation ::
    "double list \<Rightarrow> double list \<Rightarrow> (double \<times> double \<times> double) list \<Rightarrow> bool list \<Rightarrow> double list \<times> double list"
  extract_dof :: "nat list \<Rightarrow> double list \<Rightarrow> double list"
  evaluate_dof_at_quadrature_points :: "quadrature \<Rightarrow> nat \<Rightarrow> double \<Rightarrow> double list \<Rightarrow> double list"
  evaluate_dof_at_boundary_points :: "quadrature \<Rightarrow> nat \<Rightarrow> double \<Rightarrow> double list \<Rightarrow> double \<times> double"
  update_ghost_layer :: "double list \<Rightarrow> double list"

section \<open>The Newton iteration of the Windkessel boundary\<close>

text \<open>
  The lambdas \<^verbatim>\<open>f\<close> and \<^verbatim>\<open>df\<close> of \<^verbatim>\<open>calculate_inout_fluxes\<close>; what they capture
  (\<^verbatim>\<open>param\<close>, \<^verbatim>\<open>W\<close>, \<^verbatim>\<open>p_c\<close>, \<^verbatim>\<open>R1\<close>, \<^verbatim>\<open>c0\<close>) is passed as arguments.
\<close>

definition windkessel_f ::
  "physical_data \<Rightarrow> double \<Rightarrow> double \<Rightarrow> double \<Rightarrow> double \<Rightarrow> double \<Rightarrow> double" where
  "windkessel_f param W p_c R1 c0 x =
     (let p = G0 param * (dsqrt (x / A0 param) - Finite 1)
      in W - (p - p_c) / (x * R1) - Finite 4 * c0 * dpow (x / A0 param) 0.25)"

definition windkessel_df ::
  "physical_data \<Rightarrow> double \<Rightarrow> double \<Rightarrow> double \<Rightarrow> double \<Rightarrow> double" where
  "windkessel_df param p_c R1 c0 x =
     (let p = G0 param * (dsqrt (x / A0 param) - Finite 1);
          dp = G0 param * Finite 0.5 / dsqrt (x * A0 param)
      in - dp / (x * R1) + (p - p_c) / (x * x * R1)
         - c0 * dpow x (- 0.75) / dpow (A0 param) 0.25)"

definition TOL :: double where
  "TOL = Finite (1 / 10 ^ 10)"

definition omega :: double where
  "omega = Finite 0.5 / Finite 2"

text \<open>
  The variables of the loop; \<open>cerr\<close> collects the lines the loop writes to \<^verbatim>\<open>std::cerr\<close>.
\<close>

record newton_state =
  num_iter :: int
  error :: double
  A_out :: double
  cerr :: "string list"

definition newton_body ::
  "(double \<Rightarrow> double) \<Rightarrow> (double \<Rightarrow> double) \<Rightarrow> newton_state \<Rightarrow> newton_state" where
  "newton_body f df s =
     (let f_value = f (A_out s);
          df_value = df (A_out s);
          dx = - f_value / df_value;
          A_new = A_out s + omega * dx;
          n = num_iter s + 1
      in \<lparr> num_iter = n,
           error = \<bar>f A_new\<bar>,
           A_out = A_new,
           cerr = cerr s @ (if n = 250 then [''warning: Newton did not converge''] else []) \<rparr>)"

function newton_while ::
  "(double \<Rightarrow> double) \<Rightarrow> (double \<Rightarrow> double) \<Rightarrow> newton_state \<Rightarrow> newton_state" where
  "newton_while f df s =
     (if num_iter s < 250 \<and> double_gt (error s) TOL
      then newton_while f df (newton_body f df s)
      else s)"
  by pat_completeness auto
termination
  by (relation "measure (\<lambda>(f, df, s). nat (250 - num_iter s))")
     (auto simp: newton_body_def Let_def)

definition newton_init :: "double \<Rightarrow> newton_state" where
  "newton_init A = \<lparr> num_iter = 0, error = PosInf, A_out = A, cerr = [] \<rparr>"

declare newton_while.simps [simp del]

section \<open>The evaluator\<close>

datatype error = NotInitialized | UndefinedBoundaryType | AssertionFailed

text \<open>
  The mutable members of \<^verbatim>\<open>FlowUpwindEvaluator\<close>. The graph, the dof map and the
  communicator are immutable and passed to the operations as arguments.
\<close>

record evaluator =
  d_Q_macro_edge_boundary_value :: "double list"
  d_A_macro_edge_boundary_value :: "double list"
  d_Q_macro_edge_flux_l :: "double list"
  d_Q_macro_edge_flux_r :: "double list"
  d_A_macro_edge_flux_l :: "double list"
  d_A_macro_edge_flux_r :: "double list"
  d_current_t :: double

text \<open>The constructor: zero-filled vectors, and NaN for the time stamp.\<close>

definition FlowUpwindEvaluator :: "graph_storage \<Rightarrow> evaluator" where
  "FlowUpwindEvaluator G =
     \<lparr> d_Q_macro_edge_boundary_value = replicate (2 * num_edges G) (Finite 0),
       d_A_macro_edge_boundary_value = replicate (2 * num_edges G) (Finite 0),
       d_Q_macro_edge_flux_l = replicate (num_edges G) (Finite 0),
       d_Q_macro_edge_flux_r = replicate (num_edges G) (Finite 0),
       d_A_macro_edge_flux_l = replicate (num_edges G) (Finite 0),
       d_A_macro_edge_flux_r = replicate (num_edges G) (Finite 0),
       d_current_t = NaN \<rparr>"

text \<open>
  Subtraction on \<^verbatim>\<open>std::size_t\<close> wraps around. Sums and products of indices are taken in
  \<^typ>\<open>nat\<close>: the vectors they index are far shorter than \<open>2 ^ 64\<close>.
\<close>

definition size_t_sub :: "nat \<Rightarrow> nat \<Rightarrow> nat" where
  "size_t_sub a b = (if b \<le> a then a - b else a + 2 ^ 64 - b)"

text \<open>
  The pattern \<^verbatim>\<open>in ? v[2 * id + 1] : v[2 * id]\<close> that reads the boundary value of an edge
  at the end next to the vertex.
\<close>

definition boundary_value :: "bool \<Rightarrow> nat \<Rightarrow> double list \<Rightarrow> double" where
  "boundary_value inw i xs = (if inw then xs ! (2 * i + 1) else xs ! (2 * i))"

text \<open>
  The pattern \<^verbatim>\<open>if (in) { flux_r[id] = Q; ... } else { flux_l[id] = Q; ... }\<close> that stores
  an upwinded pair at the end of the edge next to the vertex.
\<close>

definition store_flux :: "bool \<Rightarrow> nat \<Rightarrow> double \<Rightarrow> double \<Rightarrow> evaluator \<Rightarrow> evaluator" where
  "store_flux inw i Q A st =
     (if inw
      then st\<lparr> d_Q_macro_edge_flux_r := (d_Q_macro_edge_flux_r st)[i := Q],
               d_A_macro_edge_flux_r := (d_A_macro_edge_flux_r st)[i := A] \<rparr>
      else st\<lparr> d_Q_macro_edge_flux_l := (d_Q_macro_edge_flux_l st)[i := Q],
               d_A_macro_edge_flux_l := (d_A_macro_edge_flux_l st)[i := A] \<rparr>)"

text \<open>The pair an accessor reads back at that end.\<close>

definition cached_flux :: "bool \<Rightarrow> nat \<Rightarrow> evaluator \<Rightarrow> double \<times> double" where
  "cached_flux inw i st =
     (if inw
      then (d_Q_macro_edge_flux_r st ! i, d_A_macro_edge_flux_r st ! i)
      else (d_Q_macro_edge_flux_l st ! i, d_A_macro_edge_flux_l st ! i))"


subsection \<open>Boundary values of the macro edges\<close>

definition evaluate_edge_boundary_values ::
  "collaborators \<Rightarrow> graph_storage \<Rightarrow> dof_map \<Rightarrow> double list \<Rightarrow> nat \<Rightarrow> evaluator \<Rightarrow> evaluator" where
  "evaluate_edge_boundary_values C G D u_prev i st =
     (let e = get_edge G i;
          param = edge_data e;
          ldm = get_local_dof_map D e;
          h = length_pd param / Finite (real (num_micro_edges ldm));
          deg = size_t_sub (num_basis_functions ldm) 1;
          bv = (\<lambda>m c. evaluate_dof_at_boundary_points C Midpoint_Rule deg h
                        (extract_dof C (dof_indices ldm m c) u_prev));
          last_id = size_t_sub (num_micro_edges ldm) 1;
          Qb = (d_Q_macro_edge_boundary_value st)[2 * e_id e := fst (bv 0 0)];
          Ab = (d_A_macro_edge_boundary_value st)[2 * e_id e := fst (bv 0 1)];
          Qb' = Qb[2 * e_id e + 1 := snd (bv last_id 0)];
          Ab' = Ab[2 * e_id e + 1 := snd (bv last_id 1)]
      in st\<lparr> d_Q_macro_edge_boundary_value := Qb', d_A_macro_edge_boundary_value := Ab' \<rparr>)"

definition evaluate_macro_edge_boundary_values ::
  "collaborators \<Rightarrow> graph_storage \<Rightarrow> dof_map \<Rightarrow> double list \<Rightarrow> evaluator \<Rightarrow> evaluator" where
  "evaluate_macro_edge_boundary_values C G D u_prev st =
     fold (evaluate_edge_boundary_values C G D u_prev) (get_active_edge_ids G) st"

subsection \<open>Bifurcations\<close>

definition calculate_nfurcation_fluxes_vertex ::
  "collaborators \<Rightarrow> graph_storage \<Rightarrow> nat \<Rightarrow> evaluator \<Rightarrow> evaluator" where
  "calculate_nfurcation_fluxes_vertex C G i st =
     (let v = get_vertex G i
      in if \<not> is_bifurcation v then st
         else
           let num_vessels = length (edge_neighbors v);
               e = map (get_edge G) (edge_neighbors v);
               e_in = map (\<lambda>ed. is_pointing_to ed (v_id v)) e;
               p_e = map (\<lambda>ed. (G0 (edge_data ed), A0 (edge_data ed), rho (edge_data ed))) e;
               Q_e = map (\<lambda>ed. boundary_value (is_pointing_to ed (v_id v)) (e_id ed)
                                 (d_Q_macro_edge_boundary_value st)) e;
               A_e = map (\<lambda>ed. boundary_value (is_pointing_to ed (v_id v)) (e_id ed)
                                 (d_A_macro_edge_boundary_value st)) e;
               up = solve_at_nfurcation C Q_e A_e p_e e_in
           in fold (\<lambda>k. store_flux (e_in ! k) (e_id (e ! k)) (fst up ! k) (snd up ! k))
                [0 ..< num_vessels] st)"

definition calculate_nfurcation_fluxes ::
  "collaborators \<Rightarrow> graph_storage \<Rightarrow> evaluator \<Rightarrow> evaluator" where
  "calculate_nfurcation_fluxes C G st =
     fold (calculate_nfurcation_fluxes_vertex C G) (get_active_vertex_ids G) st"

subsection \<open>Leaves\<close>

text \<open>
  One pass of the loop body of \<^verbatim>\<open>calculate_inout_fluxes\<close>. The result is the exception
  thrown (if any), the lines written to \<^verbatim>\<open>std::cerr\<close> and the evaluator afterwards. The
  \<^verbatim>\<open>assert\<close> on the vertex dofs is a failure of its own.
\<close>

definition Q_init :: double where
  "Q_init = Finite 0"

definition calculate_inout_fluxes_vertex ::
  "collaborators \<Rightarrow> graph_storage \<Rightarrow> dof_map \<Rightarrow> double \<Rightarrow> double list \<Rightarrow> nat \<Rightarrow> evaluator
     \<Rightarrow> error option \<times> string list \<times> evaluator" where
  "calculate_inout_fluxes_vertex C G D t u_prev i st =
     (let v = get_vertex G i
      in if is_leaf v then
           let e = get_edge G (edge_neighbors v ! 0);
               param = edge_data e;
               inw = is_pointing_to e (v_id v);
               Q = boundary_value inw (e_id e) (d_Q_macro_edge_boundary_value st);
               A = boundary_value inw (e_id e) (d_A_macro_edge_boundary_value st)
           in if is_inflow v then
                let Q_star = (if inw then Finite (- 1) else Finite 1) * inflow_value v t;
                    A_up = assemble_in_flow C Q A inw Q_star (G0 param) (rho param) (A0 param)
                in (None, [], store_flux inw (e_id e) Q_star A_up st)
              else if is_free_outflow v then
                let A_init = A0 param;
                    W1 = (if inw
                          then calculate_W1_value C Q_init A_init (G0 param) (rho param) (A0 param)
                          else calculate_W1_value C Q A (G0 param) (rho param) (A0 param));
                    W2 = (if inw
                          then calculate_W2_value C Q A (G0 param) (rho param) (A0 param)
                          else calculate_W2_value C Q_init A_init (G0 param) (rho param) (A0 param));
                    up = solve_W12 C W1 W2 (G0 param) (rho param) (A0 param)
                in (None, [], store_flux inw (e_id e) (fst up) (snd up) st)
              else if is_windkessel_outflow v then
                let vertex_dofs = get_vertex_dof_indices D v
                in if length vertex_dofs \<noteq> 1 then (Some AssertionFailed, [], st)
                   else
                     let p_c = u_prev ! (vertex_dofs ! 0);
                         c0 = dpow (G0 param / (Finite 2 * rho param)) 0.5;
                         R1 = rho param * c0 / A0 param;
                         W = (if inw
                              then calculate_W2_value C Q A (G0 param) (rho param) (A0 param)
                              else calculate_W1_value C Q A (G0 param) (rho param) (A0 param));
                         s = newton_while (windkessel_f param W p_c R1 c0)
                               (windkessel_df param p_c R1 c0) (newton_init A);
                         sgn = (if inw then Finite 1 else Finite (- 1));
                         Q_out = sgn * (calculate_static_p C (A_out s) (G0 param) (A0 param) - p_c) / R1
                     in (None, cerr s, store_flux inw (e_id e) Q_out (A_out s) st)
              else (Some UndefinedBoundaryType, [], st)
         else (None, [], st))"

text \<open>The loop over the active vertices stops at the first exception.\<close>

fun calculate_inout_fluxes_loop ::
  "collaborators \<Rightarrow> graph_storage \<Rightarrow> dof_map \<Rightarrow> double \<Rightarrow> double list \<Rightarrow> nat list
     \<Rightarrow> string list \<Rightarrow> evaluator \<Rightarrow> error option \<times> string list \<times> evaluator" where
  "calculate_inout_fluxes_loop C G D t u_prev [] out st = (None, out, st)"
| "calculate_inout_fluxes_loop C G D t u_prev (i # rest) out st =
     (case calculate_inout_fluxes_vertex C G D t u_prev i st of
        (Some x, lines, st') \<Rightarrow> (Some x, out @ lines, st')
      | (None, lines, st') \<Rightarrow> calculate_inout_fluxes_loop C G D t u_prev rest (out @ lines) st')"

definition calculate_inout_fluxes ::
  "collaborators \<Rightarrow> graph_storage \<Rightarrow> dof_map \<Rightarrow> double \<Rightarrow> double list \<Rightarrow> evaluator
     \<Rightarrow> error option \<times> string list \<times> evaluator" where
  "calculate_inout_fluxes C G D t u_prev st =
     calculate_inout_fluxes_loop C G D t u_prev (get_active_vertex_ids G) [] st"

subsection \<open>One time step\<close>

definition init ::
  "collaborators \<Rightarrow> graph_storage \<Rightarrow> dof_map \<Rightarrow> double \<Rightarrow> double list \<Rightarrow> evaluator
     \<Rightarrow> error option \<times> string list \<times> evaluator" where
  "init C G D t u_prev st =
     (let st1 = st\<lparr> d_current_t := t \<rparr>;
          st2 = evaluate_macro_edge_boundary_values C G D u_prev st1;
          st3 = st2\<lparr> d_Q_macro_edge_boundary_value :=
                       update_ghost_layer C (d_Q_macro_edge_boundary_value st2) \<rparr>;
          st4 = st3\<lparr> d_A_macro_edge_boundary_value :=
                       update_ghost_layer C (d_A_macro_edge_boundary_value st3) \<rparr>;
          st5 = calculate_nfurcation_fluxes C G st4
      in calculate_inout_fluxes C G D t u_prev st5)"

subsection \<open>The accessors\<close>

text \<open>
  Both accessors are \<^verbatim>\<open>const\<close> members: they are functions of the evaluator and return no
  new one. \<^verbatim>\<open>get_fluxes_on_macro_edge\<close> writes into two vectors of the caller, whose sizes
  it asserts.
\<close>

definition interior_flux ::
  "collaborators \<Rightarrow> local_edge_dof_map \<Rightarrow> physical_data \<Rightarrow> double \<Rightarrow> double list \<Rightarrow> nat
     \<Rightarrow> double \<times> double" where
  "interior_flux C ldm param h u_prev micro_vertex_id =
     (let local_micro_edge_id_l = size_t_sub micro_vertex_id 1;
          local_micro_edge_id_r = micro_vertex_id;
          deg = size_t_sub (num_basis_functions ldm) 1;
          qp = (\<lambda>m c. evaluate_dof_at_quadrature_points C Trapezoidal_Rule deg h
                        (extract_dof C (dof_indices ldm m c) u_prev));
          Q_l = qp local_micro_edge_id_l 0 ! 1;
          A_l = qp local_micro_edge_id_l 1 ! 1;
          Q_r = qp local_micro_edge_id_r 0 ! 0;
          A_r = qp local_micro_edge_id_r 1 ! 0;
          W2_l = calculate_W2_value C Q_l A_l (G0 param) (rho param) (A0 param);
          W1_r = calculate_W1_value C Q_r A_r (G0 param) (rho param) (A0 param)
      in solve_W12 C W1_r W2_l (G0 param) (rho param) (A0 param))"

definition get_fluxes_on_macro_edge ::
  "collaborators \<Rightarrow> dof_map \<Rightarrow> double \<Rightarrow> edge \<Rightarrow> double list \<Rightarrow> double list \<Rightarrow> double list \<Rightarrow> evaluator
     \<Rightarrow> error + double list \<times> double list" where
  "get_fluxes_on_macro_edge C D t e u_prev Q_up_macro_edge A_up_macro_edge st =
     (if double_ne (d_current_t st) t then Inl NotInitialized
      else
        let ldm = get_local_dof_map D e
        in if length Q_up_macro_edge \<noteq> num_micro_vertices ldm then Inl AssertionFailed
           else if length A_up_macro_edge \<noteq> num_micro_vertices ldm then Inl AssertionFailed
           else
             let param = edge_data e;
                 h = length_pd param / Finite (real (num_micro_edges ldm));
                 last_id = size_t_sub (num_micro_vertices ldm) 1;
                 QA = fold (\<lambda>k (Qs, As).
                              let up = interior_flux C ldm param h u_prev k
                              in (Qs[k := fst up], As[k := snd up]))
                        [1 ..< last_id] (Q_up_macro_edge, A_up_macro_edge);
                 Qs0 = (fst QA)[0 := d_Q_macro_edge_flux_l st ! e_id e];
                 As0 = (snd QA)[0 := d_A_macro_edge_flux_l st ! e_id e]
             in Inr (Qs0[last_id := d_Q_macro_edge_flux_r st ! e_id e],
                     As0[last_id := d_A_macro_edge_flux_r st ! e_id e]))"

definition get_fluxes_on_nfurcation ::
  "graph_storage \<Rightarrow> double \<Rightarrow> vertex \<Rightarrow> evaluator \<Rightarrow> error + double list \<times> double list" where
  "get_fluxes_on_nfurcation G t v st =
     (if double_ne (d_current_t st) t then Inl NotInitialized
      else
        let up = map (\<lambda>n. let e = get_edge G n
                          in cached_flux (is_pointing_to e (v_id v)) (e_id e) st)
                   (edge_neighbors v)
        in Inr (map fst up, map snd up))"

section \<open>Formulas and iteration as the specification words them\<close>

text \<open>
  Modelled from the spec: \<^verbatim>\<open>calculate_static_p\<close> of \<^verbatim>\<open>vessel_formulas.hpp\<close>, which is
  not part of the sources. The specification gives the pressure-area law
  \<open>p(A) = G0 (sqrt (A / A0) - 1)\<close>.
\<close>

definition calculate_static_p_spec :: "double \<Rightarrow> double \<Rightarrow> double \<Rightarrow> double" where
  "calculate_static_p_spec A G A_ref = G * (dsqrt (A / A_ref) - Finite 1)"

text \<open>
  Modelled from the spec: \<^verbatim>\<open>calculate_W1_value\<close> and \<^verbatim>\<open>calculate_W2_value\<close> of
  \<^verbatim>\<open>vessel_formulas.hpp\<close>, which is not part of the sources. The specification states
  the Windkessel condition as \<open>W - Q_out / A_out - 4 c0 (A_out / A0)^(1/4) = 0\<close> for the
  invariant \<open>W\<close> that leaves through the vertex, with \<open>c0 = sqrt (G0 / (2 rho))\<close> and
  \<open>Q_out\<close> counted positive along an edge that points to the vertex (\<open>W2\<close>) and negative
  along one that points away (\<open>W1\<close>).
\<close>

definition calculate_W1_value_spec ::
  "double \<Rightarrow> double \<Rightarrow> double \<Rightarrow> double \<Rightarrow> double \<Rightarrow> double" where
  "calculate_W1_value_spec Q A G r A_ref =
     - Q / A + Finite 4 * dsqrt (G / (Finite 2 * r)) * dpow (A / A_ref) (1 / 4)"

definition calculate_W2_value_spec ::
  "double \<Rightarrow> double \<Rightarrow> double \<Rightarrow> double \<Rightarrow> double \<Rightarrow> double" where
  "calculate_W2_value_spec Q A G r A_ref =
     Q / A + Finite 4 * dsqrt (G / (Finite 2 * r)) * dpow (A / A_ref) (1 / 4)"

text \<open>
  Modelled from the spec: \<^verbatim>\<open>solve_W12\<close> of \<^verbatim>\<open>vessel_formulas.hpp\<close>, which is not part of
  the sources. The specification calls it the closed form of the two characteristic
  equations: their sum gives the area (the fourth power of a quotient), their difference
  the flow.
\<close>

definition solve_W12_spec ::
  "double \<Rightarrow> double \<Rightarrow> double \<Rightarrow> double \<Rightarrow> double \<Rightarrow> double \<times> double" where
  "solve_W12_spec W1 W2 G r A_ref =
     (let q = (W1 + W2) / (Finite 8 * dsqrt (G / (Finite 2 * r)));
          A = A_ref * (q * q * q * q);
          Q = A / Finite 2 * (W2 - W1)
      in (Q, A))"

text \<open>
  The damped Newton iteration in the words of the specification: relaxation factor \<open>w\<close>,
  tolerance \<open>tol\<close> on the magnitude of the residual, at most \<open>cap\<close> steps; it stops as soon
  as the magnitude of the residual is at most the tolerance. The result is the value,
  whether the tolerance was reached, and the number of steps taken.
\<close>

function damped_newton ::
  "double \<Rightarrow> double \<Rightarrow> nat \<Rightarrow> (double \<Rightarrow> double) \<Rightarrow> (double \<Rightarrow> double) \<Rightarrow> double \<Rightarrow> nat
     \<Rightarrow> double \<times> bool \<times> nat" where
  "damped_newton w tol cap f df x n =
     (if n < cap
      then (let x' = x + w * (- f x / df x)
            in if double_le \<bar>f x'\<bar> tol then (x', True, n + 1)
               else damped_newton w tol cap f df x' (n + 1))
      else (x, False, n))"
  by pat_completeness auto
termination
  by (relation "measure (\<lambda>(w, tol, cap, f, df, x, n). cap - n)") auto

declare damped_newton.simps [simp del]

section \<open>A small network for concrete instances\<close>

text \<open>
  Four vessels that meet in vertex 1: vessel 0 comes from the inflow vertex 0, vessel 1
  leads to the free outflow vertex 2, vessels 2 and 3 lead to the Windkessel vertices 3
  and 4. Each vessel has two micro edges with one basis function per variable.
\<close>

definition ex_data :: physical_data where
  "ex_data = \<lparr> G0 = Finite 2, A0 = Finite 1, rho = Finite 1, length_pd = Finite 1 \<rparr>"

definition ex_data_wk :: physical_data where
  "ex_data_wk = \<lparr> G0 = Finite 71442, A0 = Finite 1, rho = Finite 1, length_pd = Finite 1 \<rparr>"

definition ex_edge :: "nat \<Rightarrow> edge" where
  "ex_edge i =
     (if i = 0 then \<lparr> e_id = 0, vertex_neighbors = (0, 1), edge_data = ex_data \<rparr>
      else if i = 1 then \<lparr> e_id = 1, vertex_neighbors = (1, 2), edge_data = ex_data \<rparr>
      else if i = 2 then \<lparr> e_id = 2, vertex_neighbors = (1, 3), edge_data = ex_data_wk \<rparr>
      else \<lparr> e_id = 3, vertex_neighbors = (1, 4), edge_data = ex_data \<rparr>)"

definition ex_inflow :: "double \<Rightarrow> double" where
  "ex_inflow t = Finite 5 + t"

definition ex_vertex :: "nat \<Rightarrow> vertex" where
  "ex_vertex i =
     (if i = 0
      then \<lparr> v_id = 0, edge_neighbors = [0], v_type = InflowPrescribed,
             inflow_value = ex_inflow \<rparr>
      else if i = 1
      then \<lparr> v_id = 1, edge_neighbors = [0, 1, 2, 3], v_type = Inner,
             inflow_value = (\<lambda>t. Finite 0) \<rparr>
      else if i = 2
      then \<lparr> v_id = 2, edge_neighbors = [1], v_type = FreeOutflow,
             inflow_value = (\<lambda>t. Finite 0) \<rparr>
      else if i = 3
      then \<lparr> v_id = 3, edge_neighbors = [2], v_type = WindkesselOutflow,
             inflow_value = (\<lambda>t. Finite 0) \<rparr>
      else \<lparr> v_id = 4, edge_neighbors = [3], v_type = WindkesselOutflow,
             inflow_value = (\<lambda>t. Finite 0) \<rparr>)"

definition ex_graph :: graph_storage where
  "ex_graph = \<lparr> num_edges = 4, get_edge = ex_edge, get_vertex = ex_vertex,
                get_active_edge_ids = [0, 1, 2, 3], get_active_vertex_ids = [0, 1, 2, 3, 4] \<rparr>"

definition ex_dof_map :: dof_map where
  "ex_dof_map =
     \<lparr> get_local_dof_map = (\<lambda>e. \<lparr> num_micro_edges = 2, num_micro_vertices = 3,
                                  num_basis_functions = 1,
                                  dof_indices = (\<lambda>m c. [4 * e_id e + 2 * m + c]) \<rparr>),
       get_vertex_dof_indices =
         (\<lambda>v. if v_id v = 3 then [16] else if v_id v = 4 then [17] else []) \<rparr>"

text \<open>
  The collaborators of the instance: the formulas above, and the simplest stand-ins for the
  rest (piecewise constant finite elements, no ghost values to exchange, an inflow area and a
  junction solve that return the measured values).
\<close>

definition ex_collaborators :: collaborators where
  "ex_collaborators =
     \<lparr> calculate_W1_value = calculate_W1_value_spec,
       calculate_W2_value = calculate_W2_value_spec,
       solve_W12 = solve_W12_spec,
       assemble_in_flow = (\<lambda>Q A inw Q_star G r A_ref. A),
       calculate_static_p = calculate_static_p_spec,
       solve_at_nfurcation = (\<lambda>Q_e A_e p_e e_in. (Q_e, A_e)),
       extract_dof = (\<lambda>idx u. map (\<lambda>k. u ! k) idx),
       evaluate_dof_at_quadrature_points = (\<lambda>rule deg h dofs. [dofs ! 0, dofs ! 0]),
       evaluate_dof_at_boundary_points = (\<lambda>rule deg h dofs. (dofs ! 0, dofs ! 0)),
       update_ghost_layer = (\<lambda>xs. xs) \<rparr>"

text \<open>
  A solution vector (flow and area of every micro edge, then the capillary pressures of
  the vertices 3 and 4) and the evaluator after the boundary values were read from it at
  time 0. Vessel 3 carries a strong flow away from its Windkessel vertex.
\<close>

definition ex_u :: "double list" where
  "ex_u = map Finite
     [5, 1, 5, 1, 0, 1, 0, 1, 850, 1, 850, 1, - 10, 1, - 10, 1, - 69930, 0]"

definition ex_state :: evaluator where
  "ex_state =
     \<lparr> d_Q_macro_edge_boundary_value = map Finite [5, 5, 0, 0, 850, 850, - 10, - 10],
       d_A_macro_edge_boundary_value = map Finite [1, 1, 1, 1, 1, 1, 1, 1],
       d_Q_macro_edge_flux_l = map Finite [0, 0, 0, 0],
       d_Q_macro_edge_flux_r = map Finite [0, 0, 0, 0],
       d_A_macro_edge_flux_l = map Finite [0, 0, 0, 0],
       d_A_macro_edge_flux_r = map Finite [0, 0, 0, 0],
       d_current_t = Finite 0 \<rparr>"

text \<open>The evaluator of the instance with upwinded values in its cache.\<close>

definition ex_state_up :: evaluator where
  "ex_state_up =
     \<lparr> d_Q_macro_edge_boundary_value = map Finite [5, 5, 0, 0, 850, 850, - 10, - 10],
       d_A_macro_edge_boundary_value = map Finite [1, 1, 1, 1, 1, 1, 1, 1],
       d_Q_macro_edge_flux_l = map Finite [7, 11, 13, 23],
       d_Q_macro_edge_flux_r = map Finite [17, 19, 1504, 29],
       d_A_macro_edge_flux_l = map Finite [1, 2, 3, 4],
       d_A_macro_edge_flux_r = map Finite [4, 5, 16, 6],
       d_current_t = Finite 0 \<rparr>"

text \<open>
  A residual that is 1 below 250 and 0 from there on, with constant slope \<open>- 1 / 4\<close>: every
  damped step moves the iterate by one.
\<close>

definition stair_f :: "double \<Rightarrow> double" where
  "stair_f x = (if double_gt (Finite 250) x then Finite 1 else Finite 0)"

definition stair_df :: "double \<Rightarrow> double" where
  "stair_df x = Finite (- 1 / 4)"

section \<open>Arithmetic on finite doubles and on NaN\<close>

lemma double_finite [simp]:
  "Finite a + Finite b = Finite (a + b)"
  "Finite a - Finite b = Finite (a - b)"
  "- Finite a = Finite (- a)"
  "Finite a * Finite b = Finite (a * b)"
  "\<bar>Finite a\<bar> = Finite \<bar>a\<bar>"
  by (simp_all add: plus_double_def minus_double_def uminus_double_def times_double_def
      abs_double_def)

lemma double_divide [simp]:
  "b \<noteq> 0 \<Longrightarrow> Finite a / Finite b = Finite (a / b)"
  by (simp add: divide_double_def)

lemma double_NaN [simp]:
  "NaN + b = NaN" "a + NaN = NaN" "NaN - b = NaN" "a - NaN = NaN"
  "NaN * b = NaN" "a * NaN = NaN" "NaN / b = NaN" "a / NaN = NaN"
  "- NaN = NaN" "\<bar>NaN\<bar> = NaN"
  by (cases a; cases b;
      simp add: plus_double_def minus_double_def uminus_double_def times_double_def
        divide_double_def abs_double_def)+

lemma double_le_not_gt: "double_le a b \<Longrightarrow> \<not> double_gt a b"
  by (cases a; cases b) auto

lemma not_double_le: "\<not> double_le a (Finite y) \<Longrightarrow> a = NaN \<or> double_gt a (Finite y)"
  by (cases a) auto

lemma double_ne_iff: "double_ne a b = (a = NaN \<or> a \<noteq> b)"
  by (cases a; cases b) auto

section \<open>What the phases of a time step leave unchanged\<close>

lemma fold_keeps:
  assumes "\<And>x s. g (f x s) = g s"
  shows "g (fold f xs s) = g s"
  using assms by (induction xs arbitrary: s) simp_all

lemma store_flux_keeps [simp]:
  "d_current_t (store_flux inw i Q A st) = d_current_t st"
  "d_Q_macro_edge_boundary_value (store_flux inw i Q A st) = d_Q_macro_edge_boundary_value st"
  "d_A_macro_edge_boundary_value (store_flux inw i Q A st) = d_A_macro_edge_boundary_value st"
  by (simp_all add: store_flux_def)

lemma evaluate_macro_edge_boundary_values_t:
  "d_current_t (evaluate_macro_edge_boundary_values C G D u st) = d_current_t st"
  unfolding evaluate_macro_edge_boundary_values_def
  by (rule fold_keeps) (simp add: evaluate_edge_boundary_values_def Let_def)

lemma calculate_nfurcation_fluxes_vertex_t:
  "d_current_t (calculate_nfurcation_fluxes_vertex C G i st) = d_current_t st"
  unfolding calculate_nfurcation_fluxes_vertex_def Let_def
  by (simp add: fold_keeps [where g = d_current_t])

lemma calculate_nfurcation_fluxes_t:
  "d_current_t (calculate_nfurcation_fluxes C G st) = d_current_t st"
  unfolding calculate_nfurcation_fluxes_def
  by (rule fold_keeps) (rule calculate_nfurcation_fluxes_vertex_t)

lemma calculate_inout_fluxes_vertex_t:
  "d_current_t (snd (snd (calculate_inout_fluxes_vertex C G D t u i st))) = d_current_t st"
  by (simp add: calculate_inout_fluxes_vertex_def Let_def)

lemma calculate_inout_fluxes_loop_t:
  "d_current_t (snd (snd (calculate_inout_fluxes_loop C G D t u vs out st))) = d_current_t st"
proof (induction vs arbitrary: out st)
  case Nil
  show ?case by simp
next
  case (Cons i vs)
  obtain x ls st' where step: "calculate_inout_fluxes_vertex C G D t u i st = (x, ls, st')"
    by (cases "calculate_inout_fluxes_vertex C G D t u i st") auto
  have keep: "d_current_t st' = d_current_t st"
    using calculate_inout_fluxes_vertex_t [of C G D t u i st] step by simp
  show ?case
  proof (cases x)
    case None
    with step keep Cons.IH [of "out @ ls" st'] show ?thesis by simp
  next
    case (Some a)
    with step keep show ?thesis by simp
  qed
qed

text \<open>
  The time stamp after \<^verbatim>\<open>init\<close> is the time passed in, also when a boundary type was
  undefined and the call ended with an exception.
\<close>

lemma init_current_t:
  "d_current_t (snd (snd (init C G D t u st))) = t"
  by (simp add: init_def Let_def calculate_inout_fluxes_def calculate_inout_fluxes_loop_t
      calculate_nfurcation_fluxes_t evaluate_macro_edge_boundary_values_t)

text \<open>
  No vertex step writes a boundary value, and the loop over the leaves can be cut at any
  vertex.
\<close>

lemma calculate_nfurcation_fluxes_vertex_boundary:
  "d_Q_macro_edge_boundary_value (calculate_nfurcation_fluxes_vertex C G i st)
     = d_Q_macro_edge_boundary_value st"
  "d_A_macro_edge_boundary_value (calculate_nfurcation_fluxes_vertex C G i st)
     = d_A_macro_edge_boundary_value st"
  unfolding calculate_nfurcation_fluxes_vertex_def Let_def
  by (simp_all add: fold_keeps [where g = d_Q_macro_edge_boundary_value]
      fold_keeps [where g = d_A_macro_edge_boundary_value])

lemma fold_nfurcation_boundary:
  "d_Q_macro_edge_boundary_value (fold (calculate_nfurcation_fluxes_vertex C G) vs st)
     = d_Q_macro_edge_boundary_value st"
  "d_A_macro_edge_boundary_value (fold (calculate_nfurcation_fluxes_vertex C G) vs st)
     = d_A_macro_edge_boundary_value st"
  "d_current_t (fold (calculate_nfurcation_fluxes_vertex C G) vs st) = d_current_t st"
  by (rule fold_keeps, rule calculate_nfurcation_fluxes_vertex_boundary
      calculate_nfurcation_fluxes_vertex_t)+

lemma calculate_inout_fluxes_vertex_boundary:
  "d_Q_macro_edge_boundary_value (snd (snd (calculate_inout_fluxes_vertex C G D t u i st)))
     = d_Q_macro_edge_boundary_value st"
  "d_A_macro_edge_boundary_value (snd (snd (calculate_inout_fluxes_vertex C G D t u i st)))
     = d_A_macro_edge_boundary_value st"
  by (simp_all add: calculate_inout_fluxes_vertex_def Let_def)

lemma calculate_inout_fluxes_loop_keeps:
  assumes "\<And>i s. g (snd (snd (calculate_inout_fluxes_vertex C G D t u i s))) = g s"
  shows "g (snd (snd (calculate_inout_fluxes_loop C G D t u vs out st))) = g st"
proof (induction vs arbitrary: out st)
  case Nil
  show ?case by simp
next
  case (Cons i vs)
  obtain x ls st' where step: "calculate_inout_fluxes_vertex C G D t u i st = (x, ls, st')"
    by (cases "calculate_inout_fluxes_vertex C G D t u i st") auto
  have keep: "g st' = g st"
    using assms [of i st] step by simp
  show ?case
  proof (cases x)
    case None
    with step keep Cons.IH [of "out @ ls" st'] show ?thesis by simp
  next
    case (Some a)
    with step keep show ?thesis by simp
  qed
qed

lemma calculate_inout_fluxes_loop_append:
  "calculate_inout_fluxes_loop C G D t u (xs @ ys) out st =
     (case calculate_inout_fluxes_loop C G D t u xs out st of
        (Some x, out', st') \<Rightarrow> (Some x, out', st')
      | (None, out', st') \<Rightarrow> calculate_inout_fluxes_loop C G D t u ys out' st')"
proof (induction xs arbitrary: out st)
  case Nil
  show ?case by simp
next
  case (Cons i xs)
  show ?case
    by (simp add: Cons.IH split: prod.splits option.splits)
qed

section \<open>The Newton loop\<close>

lemma omega_quarter: "omega = Finite (1 / 4)"
  by (simp add: omega_def)

text \<open>
  A NaN residual ends the loop at once, so the error the loop ends with is the only one
  that can be NaN. When it is a number, the loop is the iteration of the specification.
\<close>

lemma newton_while_refines:
  "num_iter s = int n \<Longrightarrow> double_gt (error s) TOL \<Longrightarrow> error (newton_while f df s) \<noteq> NaN \<Longrightarrow>
   A_out (newton_while f df s) = fst (damped_newton omega TOL 250 f df (A_out s) n)
   \<and> num_iter (newton_while f df s) = int (snd (snd (damped_newton omega TOL 250 f df (A_out s) n)))"
proof (induction "250 - n" arbitrary: s n rule: less_induct)
  case less
  show ?case
  proof (cases "n < 250")
    case False
    with less.prems show ?thesis
      by (simp add: newton_while.simps [of f df s] damped_newton.simps [of _ _ _ f df "A_out s" n])
  next
    case True
    let ?s' = "newton_body f df s"
    let ?x' = "A_out s + omega * (- f (A_out s) / df (A_out s))"
    have body: "num_iter ?s' = int (n + 1)" "A_out ?s' = ?x'" "error ?s' = \<bar>f ?x'\<bar>"
      using less.prems by (simp_all add: newton_body_def Let_def)
    have unfold: "newton_while f df s = newton_while f df ?s'"
      using True less.prems by (simp add: newton_while.simps [of f df s])
    show ?thesis
    proof (cases "double_le \<bar>f ?x'\<bar> TOL")
      case conv: True
      then have "newton_while f df ?s' = ?s'"
        using body double_le_not_gt [OF conv] by (simp add: newton_while.simps [of f df ?s'])
      with unfold body conv True show ?thesis
        by (simp add: damped_newton.simps [of _ _ _ f df "A_out s" n] Let_def)
    next
      case nconv: False
      have gt: "double_gt (error ?s') TOL"
      proof (rule ccontr)
        assume ngt: "\<not> double_gt (error ?s') TOL"
        then have stop: "newton_while f df ?s' = ?s'"
          by (simp add: newton_while.simps [of f df ?s'])
        from nconv not_double_le [of "\<bar>f ?x'\<bar>" "1 / 10 ^ 10"] ngt body
        have "error ?s' = NaN" by (auto simp: TOL_def)
        with less.prems(3) unfold stop show False by simp
      qed
      have "250 - (n + 1) < 250 - n" using True by simp
      from less.hyps [OF this body(1) gt] less.prems(3) unfold body nconv True show ?thesis
        by (simp add: damped_newton.simps [of _ _ _ f df "A_out s" n] Let_def)
    qed
  qed
qed

lemma newton_while_from_init:
  assumes "error (newton_while f df (newton_init A)) \<noteq> NaN"
  shows "A_out (newton_while f df (newton_init A))
       = fst (damped_newton (Finite (1 / 4)) (Finite (1 / 10 ^ 10)) 250 f df A 0)
   \<and> num_iter (newton_while f df (newton_init A))
       = int (snd (snd (damped_newton (Finite (1 / 4)) (Finite (1 / 10 ^ 10)) 250 f df A 0)))"
proof -
  have "num_iter (newton_init A) = int 0" "double_gt (error (newton_init A)) TOL"
    by (simp_all add: newton_init_def TOL_def)
  from newton_while_refines [OF this assms] show ?thesis
    by (simp add: newton_init_def omega_quarter TOL_def)
qed

lemma damped_newton_count: "n \<le> snd (snd (damped_newton w tol cap f df x n))"
proof (induction w tol cap f df x n rule: damped_newton.induct)
  case (1 w tol cap f df x n)
  show ?case
  proof (cases "n < cap")
    case False
    then show ?thesis by (simp add: damped_newton.simps [of w tol cap f df x n])
  next
    case True
    let ?x' = "x + w * (- f x / df x)"
    show ?thesis
    proof (cases "double_le \<bar>f ?x'\<bar> tol")
      case True
      with \<open>n < cap\<close> show ?thesis by (simp add: damped_newton.simps [of w tol cap f df x n] Let_def)
    next
      case False
      with 1 [OF \<open>n < cap\<close> refl False] \<open>n < cap\<close> show ?thesis
        by (simp add: damped_newton.simps [of w tol cap f df x n] Let_def)
    qed
  qed
qed

lemma damped_newton_count_step:
  assumes "n < cap"
  shows "n + 1 \<le> snd (snd (damped_newton w tol cap f df x n))"
proof (cases "double_le \<bar>f (x + w * (- f x / df x))\<bar> tol")
  case True
  with assms show ?thesis by (simp add: damped_newton.simps [of w tol cap f df x n] Let_def)
next
  case False
  with assms damped_newton_count [of "n + 1" w tol cap f df "x + w * (- f x / df x)"]
  show ?thesis by (simp add: damped_newton.simps [of w tol cap f df x n] Let_def)
qed

text \<open>The warning is written in the pass that makes the counter 250, and only there.\<close>

lemma newton_while_cerr:
  "num_iter s = int n \<Longrightarrow> n < 250 \<Longrightarrow> cerr s = [] \<Longrightarrow>
   cerr (newton_while f df s)
     = (if num_iter (newton_while f df s) = 250 then [''warning: Newton did not converge''] else [])"
proof (induction "250 - n" arbitrary: s n rule: less_induct)
  case less
  show ?case
  proof (cases "double_gt (error s) TOL")
    case False
    then have "newton_while f df s = s" by (simp add: newton_while.simps [of f df s])
    with less.prems show ?thesis by simp
  next
    case True
    let ?s' = "newton_body f df s"
    have unfold: "newton_while f df s = newton_while f df ?s'"
      using True less.prems by (simp add: newton_while.simps [of f df s])
    have n': "num_iter ?s' = int (n + 1)"
      using less.prems by (simp add: newton_body_def Let_def)
    show ?thesis
    proof (cases "n + 1 = 250")
      case True
      then have "newton_while f df ?s' = ?s'"
        using n' by (simp add: newton_while.simps [of f df ?s'])
      moreover have "cerr ?s' = [''warning: Newton did not converge'']"
        using True less.prems by (simp add: newton_body_def Let_def)
      ultimately show ?thesis using unfold n' True by simp
    next
      case False
      then have lt: "n + 1 < 250" using less.prems by simp
      have c: "cerr ?s' = []" using False less.prems by (simp add: newton_body_def Let_def)
      have "250 - (n + 1) < 250 - n" using lt by simp
      from less.hyps [OF this n' lt c] unfold show ?thesis by simp
    qed
  qed
qed

text \<open>The staircase residual: 250 passes, the last of which reaches the root.\<close>

lemma stair_run:
  "n < 250 \<Longrightarrow> double_gt e TOL \<Longrightarrow>
   newton_while stair_f stair_df
     \<lparr> num_iter = int n, error = e, A_out = Finite (real n), cerr = [] \<rparr>
     = \<lparr> num_iter = 250, error = Finite 0, A_out = Finite 250,
         cerr = [''warning: Newton did not converge''] \<rparr>"
proof (induction "250 - n" arbitrary: n e rule: less_induct)
  case less
  let ?s = "\<lparr> num_iter = int n, error = e, A_out = Finite (real n), cerr = [] \<rparr>"
  let ?end = "\<lparr> num_iter = 250, error = Finite 0, A_out = Finite 250,
                cerr = [''warning: Newton did not converge''] \<rparr>"
  have unfold: "newton_while stair_f stair_df ?s
                = newton_while stair_f stair_df (newton_body stair_f stair_df ?s)"
    using less.prems by (simp add: newton_while.simps [of _ _ ?s])
  show ?case
  proof (cases "n + 1 = 250")
    case True
    then have n: "n = 249" by simp
    have "newton_body stair_f stair_df ?s = ?end"
      by (simp add: n newton_body_def Let_def stair_f_def stair_df_def omega_quarter)
    then show ?thesis
      unfolding unfold by (simp add: newton_while.simps [of _ _ ?end])
  next
    case False
    then have lt: "n + 1 < 250" using less.prems by simp
    have b: "newton_body stair_f stair_df ?s
          = \<lparr> num_iter = int (n + 1), error = Finite 1, A_out = Finite (real (n + 1)), cerr = [] \<rparr>"
      using lt by (simp add: newton_body_def Let_def stair_f_def stair_df_def omega_quarter)
    have "250 - (n + 1) < 250 - n" using lt by simp
    from less.hyps [OF this lt, of "Finite 1"] show ?thesis
      unfolding unfold b by (simp add: TOL_def)
  qed
qed

section \<open>One leaf vertex in the loop of \<^verbatim>\<open>calculate_inout_fluxes\<close>\<close>

lemma cached_flux_store_flux:
  assumes "i < length (d_Q_macro_edge_flux_l st)" "i < length (d_Q_macro_edge_flux_r st)"
    "i < length (d_A_macro_edge_flux_l st)" "i < length (d_A_macro_edge_flux_r st)"
  shows "cached_flux inw i (store_flux inw i Q A st) = (Q, A)"
  using assms by (simp add: cached_flux_def store_flux_def)



lemma windkessel_vertex:
  assumes "is_leaf (get_vertex G i)" "is_windkessel_outflow (get_vertex G i)"
    "length (get_vertex_dof_indices D (get_vertex G i)) = 1"
  shows "calculate_inout_fluxes_vertex C G D t u i st =
    (let v = get_vertex G i; e = get_edge G (edge_neighbors v ! 0); inw = is_pointing_to e (v_id v);
         Q = boundary_value inw (e_id e) (d_Q_macro_edge_boundary_value st);
         A = boundary_value inw (e_id e) (d_A_macro_edge_boundary_value st);
         p_c = u ! (get_vertex_dof_indices D v ! 0);
         c0 = dpow (G0 (edge_data e) / (Finite 2 * rho (edge_data e))) (1 / 2);
         R1 = rho (edge_data e) * c0 / A0 (edge_data e);
         W = (if inw
              then calculate_W2_value C Q A (G0 (edge_data e)) (rho (edge_data e)) (A0 (edge_data e))
              else calculate_W1_value C Q A (G0 (edge_data e)) (rho (edge_data e)) (A0 (edge_data e)));
         s = newton_while (windkessel_f (edge_data e) W p_c R1 c0)
               (windkessel_df (edge_data e) p_c R1 c0) (newton_init A)
     in (None, cerr s, store_flux inw (e_id e)
           ((if inw then Finite 1 else Finite (- 1))
              * (calculate_static_p C (A_out s) (G0 (edge_data e)) (A0 (edge_data e)) - p_c) / R1)
           (A_out s) st))"
  using assms
  by (simp add: calculate_inout_fluxes_vertex_def Let_def is_free_outflow_def is_inflow_def
      is_windkessel_outflow_def)



lemma solve_W12_spec_at_rest:
  assumes "0 < g" "0 < r" "0 < a"
  shows "solve_W12_spec
           (calculate_W1_value_spec (Finite 0) (Finite a) (Finite g) (Finite r) (Finite a))
           (calculate_W2_value_spec (Finite 0) (Finite a) (Finite g) (Finite r) (Finite a))
           (Finite g) (Finite r) (Finite a) = (Finite 0, Finite a)"
proof -
  define c where "c = sqrt (g / (2 * r))"
  have pos: "0 < g / (2 * r)" using assms by (intro divide_pos_pos) simp_all
  then have c: "0 < c" unfolding c_def by (rule real_sqrt_gt_zero)
  have nneg: "\<not> g / (2 * r) < 0" using pos by linarith
  have root: "dsqrt (Finite g / (Finite 2 * Finite r)) = Finite c"
    using assms nneg by (simp add: c_def)
  have one: "dpow (Finite a / Finite a) (1 / 4) = Finite 1" using assms by simp
  have W1: "calculate_W1_value_spec (Finite 0) (Finite a) (Finite g) (Finite r) (Finite a)
            = Finite (4 * c)"
    unfolding calculate_W1_value_spec_def root one using assms by simp
  have W2: "calculate_W2_value_spec (Finite 0) (Finite a) (Finite g) (Finite r) (Finite a)
            = Finite (4 * c)"
    unfolding calculate_W2_value_spec_def root one using assms by simp
  have q: "(4 * c + 4 * c) / (8 * c) = 1" using c by simp
  have "(Finite (4 * c) + Finite (4 * c)) / (Finite 8 * Finite c) = Finite 1"
    using c q by simp
  then show ?thesis
    unfolding W1 W2 solve_W12_spec_def root Let_def by simp
qed

section \<open>A leaf vertex in a time step\<close>












section \<open>The interior of a macro edge\<close>

lemma fold_interior:
  "fold (\<lambda>k (Qs, As). let up = g k in (Qs[k := fst up], As[k := snd up])) ks (Qs, As) = (Qs', As')
   \<Longrightarrow> length Qs' = length Qs \<and> length As' = length As
     \<and> (\<forall>j < length Qs. Qs' ! j = (if j \<in> set ks then fst (g j) else Qs ! j))
     \<and> (\<forall>j < length As. As' ! j = (if j \<in> set ks then snd (g j) else As ! j))"
proof (induction ks arbitrary: Qs As)
  case Nil
  then show ?case by simp
next
  case (Cons k ks)
  from Cons.prems
  have "fold (\<lambda>k (Qs, As). let up = g k in (Qs[k := fst up], As[k := snd up])) ks
          (Qs[k := fst (g k)], As[k := snd (g k)]) = (Qs', As')"
    by (simp add: Let_def)
  from Cons.IH [OF this] show ?case
    by (auto simp: nth_list_update)
qed

lemma list3: "length xs = 3 \<Longrightarrow> xs = [xs ! 0, xs ! 1, xs ! 2]"
  by (cases xs; simp; cases "tl xs"; simp; cases "tl (tl xs)"; simp)

section \<open>Values of the concrete instance\<close>

lemma powr_quarter_16: "(16::real) powr (1 / 4) = 2"
proof -
  have "(16::real) = 2 powr 4" by simp
  then have "(16::real) powr (1 / 4) = (2 powr 4) powr (1 / 4)" by simp
  also have "\<dots> = 2" by (simp only: powr_powr) simp
  finally show ?thesis .
qed

lemma ex_sqrt: "sqrt (35721::real) = 189"
proof -
  have "(35721::real) = 189 * 189" by simp
  then show ?thesis by (simp only: real_sqrt_mult_self) simp
qed

lemma ex_c0_half: "(35721::real) powr (1 / 2) = 189"
  using powr_half_sqrt [of "35721::real"] ex_sqrt by simp

lemma ex_data_wk_simps:
  "G0 ex_data_wk = Finite 71442" "rho ex_data_wk = Finite 1" "A0 ex_data_wk = Finite 1"
  by (simp_all add: ex_data_wk_def)

lemma ex_data_simps:
  "G0 ex_data = Finite 2" "rho ex_data = Finite 1" "A0 ex_data = Finite 1"
  by (simp_all add: ex_data_def)

lemma ex_f_1:
  "windkessel_f ex_data_wk (Finite 1606) (Finite (- 69930)) (Finite 189) (Finite 189) (Finite 1)
   = Finite 480"
  by (simp add: windkessel_f_def ex_data_wk_simps)

lemma ex_df_1:
  "windkessel_df ex_data_wk (Finite (- 69930)) (Finite 189) (Finite 189) (Finite 1) = Finite (- 8)"
  by (simp add: windkessel_df_def ex_data_wk_simps)

lemma ex_f_16:
  "windkessel_f ex_data_wk (Finite 1606) (Finite (- 69930)) (Finite 189) (Finite 189) (Finite 16)
   = Finite 0"
  by (simp add: windkessel_f_def ex_data_wk_simps powr_quarter_16)

lemma ex_newton:
  "newton_while (windkessel_f ex_data_wk (Finite 1606) (Finite (- 69930)) (Finite 189) (Finite 189))
     (windkessel_df ex_data_wk (Finite (- 69930)) (Finite 189) (Finite 189)) (newton_init (Finite 1))
   = \<lparr> num_iter = 1, error = Finite 0, A_out = Finite 16, cerr = [] \<rparr>"
proof -
  let ?f = "windkessel_f ex_data_wk (Finite 1606) (Finite (- 69930)) (Finite 189) (Finite 189)"
  let ?df = "windkessel_df ex_data_wk (Finite (- 69930)) (Finite 189) (Finite 189)"
  have b: "newton_body ?f ?df (newton_init (Finite 1))
           = \<lparr> num_iter = 1, error = Finite 0, A_out = Finite 16, cerr = [] \<rparr>"
    by (simp add: newton_body_def newton_init_def Let_def ex_f_1 ex_df_1 ex_f_16 omega_quarter)
  have "newton_while ?f ?df (newton_init (Finite 1))
        = newton_while ?f ?df (newton_body ?f ?df (newton_init (Finite 1)))"
    by (subst newton_while.simps) (simp add: newton_init_def TOL_def)
  also have "\<dots> = \<lparr> num_iter = 1, error = Finite 0, A_out = Finite 16, cerr = [] \<rparr>"
    unfolding b by (subst newton_while.simps) (simp add: TOL_def)
  finally show ?thesis .
qed

lemma ex_damped_half:
  "\<not> (fst (damped_newton (Finite (1 / 2)) (Finite (1 / 10 ^ 10)) 250
              (windkessel_f ex_data_wk (Finite 1606) (Finite (- 69930)) (Finite 189) (Finite 189))
              (windkessel_df ex_data_wk (Finite (- 69930)) (Finite 189) (Finite 189))
              (Finite 1) 0) = Finite 16
      \<and> snd (snd (damped_newton (Finite (1 / 2)) (Finite (1 / 10 ^ 10)) 250
              (windkessel_f ex_data_wk (Finite 1606) (Finite (- 69930)) (Finite 189) (Finite 189))
              (windkessel_df ex_data_wk (Finite (- 69930)) (Finite 189) (Finite 189))
              (Finite 1) 0)) = 1)"
proof -
  let ?f = "windkessel_f ex_data_wk (Finite 1606) (Finite (- 69930)) (Finite 189) (Finite 189)"
  let ?df = "windkessel_df ex_data_wk (Finite (- 69930)) (Finite 189) (Finite 189)"
  let ?w = "Finite (1 / 2)"
  let ?tol = "Finite (1 / 10 ^ 10)"
  have x': "Finite 1 + ?w * (- ?f (Finite 1) / ?df (Finite 1)) = Finite 31"
    by (simp add: ex_f_1 ex_df_1)
  show ?thesis
  proof (cases "double_le \<bar>?f (Finite 31)\<bar> ?tol")
    case True
    then have "damped_newton ?w ?tol 250 ?f ?df (Finite 1) 0 = (Finite 31, True, 1)"
      using x' by (subst damped_newton.simps) (simp add: Let_def)
    then show ?thesis by simp
  next
    case False
    then have "damped_newton ?w ?tol 250 ?f ?df (Finite 1) 0
               = damped_newton ?w ?tol 250 ?f ?df (Finite 31) 1"
      using x' by (subst damped_newton.simps) (simp add: Let_def)
    moreover have "1 + 1 \<le> snd (snd (damped_newton ?w ?tol 250 ?f ?df (Finite 31) 1))"
      by (rule damped_newton_count_step) simp
    ultimately show ?thesis by simp
  qed
qed

text \<open>Vessel 3: the first step of the loop leaves the domain of the square root.\<close>

lemma ex_back_f_1:
  "windkessel_f ex_data (Finite (- 6)) (Finite 0) (Finite 1) (Finite 1) (Finite 1) = Finite (- 10)"
  by (simp add: windkessel_f_def ex_data_simps)

lemma ex_back_df_1:
  "windkessel_df ex_data (Finite 0) (Finite 1) (Finite 1) (Finite 1) = Finite (- 2)"
  by (simp add: windkessel_df_def ex_data_simps)

lemma ex_back_f_neg:
  "windkessel_f ex_data (Finite (- 6)) (Finite 0) (Finite 1) (Finite 1) (Finite (- (1 / 4))) = NaN"
  by (simp add: windkessel_f_def ex_data_simps)

lemma ex_back_newton:
  "newton_while (windkessel_f ex_data (Finite (- 6)) (Finite 0) (Finite 1) (Finite 1))
     (windkessel_df ex_data (Finite 0) (Finite 1) (Finite 1)) (newton_init (Finite 1))
   = \<lparr> num_iter = 1, error = NaN, A_out = Finite (- (1 / 4)), cerr = [] \<rparr>"
proof -
  let ?f = "windkessel_f ex_data (Finite (- 6)) (Finite 0) (Finite 1) (Finite 1)"
  let ?df = "windkessel_df ex_data (Finite 0) (Finite 1) (Finite 1)"
  have b: "newton_body ?f ?df (newton_init (Finite 1))
           = \<lparr> num_iter = 1, error = NaN, A_out = Finite (- (1 / 4)), cerr = [] \<rparr>"
    by (simp add: newton_body_def newton_init_def Let_def ex_back_f_1 ex_back_df_1 ex_back_f_neg
        omega_quarter)
  have "newton_while ?f ?df (newton_init (Finite 1))
        = newton_while ?f ?df (newton_body ?f ?df (newton_init (Finite 1)))"
    by (subst newton_while.simps) (simp add: newton_init_def TOL_def)
  also have "\<dots> = \<lparr> num_iter = 1, error = NaN, A_out = Finite (- (1 / 4)), cerr = [] \<rparr>"
    unfolding b by (subst newton_while.simps) simp
  finally show ?thesis .
qed

lemma ex_W:
  "calculate_W2_value_spec (Finite 850) (Finite 1) (Finite 71442) (Finite 1) (Finite 1)
   = Finite 1606"
  by (simp add: calculate_W2_value_spec_def ex_sqrt)

lemma ex_back_W:
  "calculate_W2_value_spec (Finite (- 10)) (Finite 1) (Finite 2) (Finite 1) (Finite 1)
   = Finite (- 6)"
  by (simp add: calculate_W2_value_spec_def)

lemma ex_graph_simps:
  "get_vertex ex_graph i = ex_vertex i" "get_edge ex_graph i = ex_edge i"
  by (simp_all add: ex_graph_def)

lemma ex_vertex_3:
  "v_id (ex_vertex 3) = 3" "edge_neighbors (ex_vertex 3) = [2]"
  "v_type (ex_vertex 3) = WindkesselOutflow"
  by (simp_all add: ex_vertex_def)

lemma ex_vertex_4:
  "v_id (ex_vertex 4) = 4" "edge_neighbors (ex_vertex 4) = [3]"
  "v_type (ex_vertex 4) = WindkesselOutflow"
  by (simp_all add: ex_vertex_def)

lemma ex_edge_2:
  "e_id (ex_edge 2) = 2" "vertex_neighbors (ex_edge 2) = (1, 3)"
  "edge_data (ex_edge 2) = ex_data_wk"
  by (simp_all add: ex_edge_def)

lemma ex_edge_3:
  "e_id (ex_edge 3) = 3" "vertex_neighbors (ex_edge 3) = (1, 4)"
  "edge_data (ex_edge 3) = ex_data"
  by (simp_all add: ex_edge_def)

lemma ex_state_simps:
  "d_Q_macro_edge_boundary_value ex_state = map Finite [5, 5, 0, 0, 850, 850, - 10, - 10]"
  "d_A_macro_edge_boundary_value ex_state = map Finite [1, 1, 1, 1, 1, 1, 1, 1]"
  "d_Q_macro_edge_flux_l ex_state = map Finite [0, 0, 0, 0]"
  "d_Q_macro_edge_flux_r ex_state = map Finite [0, 0, 0, 0]"
  "d_A_macro_edge_flux_l ex_state = map Finite [0, 0, 0, 0]"
  "d_A_macro_edge_flux_r ex_state = map Finite [0, 0, 0, 0]"
  "d_current_t ex_state = Finite 0"
  by (simp_all add: ex_state_def)

lemma ex_collaborators_simps:
  "calculate_W1_value ex_collaborators = calculate_W1_value_spec"
  "calculate_W2_value ex_collaborators = calculate_W2_value_spec"
  "solve_W12 ex_collaborators = solve_W12_spec"
  "calculate_static_p ex_collaborators = calculate_static_p_spec"
  by (simp_all add: ex_collaborators_def)

lemma ex_windkessel_inputs:
  "is_leaf (ex_vertex 3)" "is_windkessel_outflow (ex_vertex 3)"
  "length (get_vertex_dof_indices ex_dof_map (ex_vertex 3)) = 1"
  "is_pointing_to (ex_edge 2) (v_id (ex_vertex 3))"
  "boundary_value True (e_id (ex_edge 2)) (d_Q_macro_edge_boundary_value ex_state) = Finite 850"
  "boundary_value True (e_id (ex_edge 2)) (d_A_macro_edge_boundary_value ex_state) = Finite 1"
  "ex_u ! (get_vertex_dof_indices ex_dof_map (ex_vertex 3) ! 0) = Finite (- 69930)"
  by (simp_all add: is_leaf_def is_windkessel_outflow_def is_pointing_to_def ex_vertex_3 ex_edge_2
      ex_dof_map_def boundary_value_def ex_state_simps ex_u_def)

lemma ex_back_inputs:
  "is_leaf (ex_vertex 4)" "is_windkessel_outflow (ex_vertex 4)"
  "length (get_vertex_dof_indices ex_dof_map (ex_vertex 4)) = 1"
  "is_pointing_to (ex_edge 3) (v_id (ex_vertex 4))"
  "boundary_value True (e_id (ex_edge 3)) (d_Q_macro_edge_boundary_value ex_state) = Finite (- 10)"
  "boundary_value True (e_id (ex_edge 3)) (d_A_macro_edge_boundary_value ex_state) = Finite 1"
  "ex_u ! (get_vertex_dof_indices ex_dof_map (ex_vertex 4) ! 0) = Finite 0"
  by (simp_all add: is_leaf_def is_windkessel_outflow_def is_pointing_to_def ex_vertex_4 ex_edge_3
      ex_dof_map_def boundary_value_def ex_state_simps ex_u_def)

lemma ex_windkessel_step:
  "calculate_inout_fluxes_vertex ex_collaborators ex_graph ex_dof_map (Finite 0) ex_u 3 ex_state
   = (None, [], store_flux True 2 (Finite 1504) (Finite 16) ex_state)"
proof -
  have p: "calculate_static_p_spec (Finite 16) (Finite 71442) (Finite 1) = Finite 214326"
    by (simp add: calculate_static_p_spec_def)
  show ?thesis
    using ex_windkessel_inputs
    by (simp add: windkessel_vertex ex_graph_simps Let_def ex_vertex_3 ex_edge_2 ex_data_wk_simps
        ex_collaborators_simps ex_W ex_c0_half ex_newton p)
qed

lemma ex_back_step:
  "calculate_inout_fluxes_vertex ex_collaborators ex_graph ex_dof_map (Finite 0) ex_u 4 ex_state
   = (None, [], store_flux True 3 NaN (Finite (- (1 / 4))) ex_state)"
proof -
  have p: "calculate_static_p_spec (Finite (- (1 / 4))) (Finite 2) (Finite 1) = NaN"
    by (simp add: calculate_static_p_spec_def)
  show ?thesis
    using ex_back_inputs
    by (simp add: windkessel_vertex ex_graph_simps Let_def ex_vertex_4 ex_edge_3 ex_data_simps
        ex_collaborators_simps ex_back_W ex_back_newton p)
qed

lemma size_t_sub_small:
  "size_t_sub 1 1 = 0" "size_t_sub 2 1 = 1" "size_t_sub 1 (Suc 0) = 0" "size_t_sub 2 (Suc 0) = 1"
  by (simp_all add: size_t_sub_def)

lemma replicate_8: "replicate 8 x = [x, x, x, x, x, x, x, x]"
  by (simp add: numeral_eq_Suc)

lemma replicate_4: "replicate 4 x = [x, x, x, x]"
  by (simp add: numeral_eq_Suc)

lemma ex_start:
  "(FlowUpwindEvaluator ex_graph)\<lparr> d_current_t := Finite 0 \<rparr> =
     \<lparr> d_Q_macro_edge_boundary_value = map Finite [0, 0, 0, 0, 0, 0, 0, 0],
       d_A_macro_edge_boundary_value = map Finite [0, 0, 0, 0, 0, 0, 0, 0],
       d_Q_macro_edge_flux_l = map Finite [0, 0, 0, 0],
       d_Q_macro_edge_flux_r = map Finite [0, 0, 0, 0],
       d_A_macro_edge_flux_l = map Finite [0, 0, 0, 0],
       d_A_macro_edge_flux_r = map Finite [0, 0, 0, 0],
       d_current_t = Finite 0 \<rparr>"
  by (simp add: FlowUpwindEvaluator_def ex_graph_def replicate_8 replicate_4)


lemma ex_active_edges: "get_active_edge_ids ex_graph = [0, 1, 2, 3]"
  by (simp add: ex_graph_def)

lemma ex_edge_ids:
  "e_id (ex_edge 0) = 0" "e_id (ex_edge 1) = 1" "e_id (ex_edge (Suc 0)) = 1"
  "e_id (ex_edge 2) = 2" "e_id (ex_edge 3) = 3"
  by (simp_all add: ex_edge_def)

lemma ex_edge_step:
  "evaluate_edge_boundary_values ex_collaborators ex_graph ex_dof_map u i st =
     st\<lparr> d_Q_macro_edge_boundary_value :=
           (d_Q_macro_edge_boundary_value st)
             [2 * e_id (ex_edge i) := u ! (4 * e_id (ex_edge i)),
              Suc (2 * e_id (ex_edge i)) := u ! Suc (Suc (4 * e_id (ex_edge i)))],
         d_A_macro_edge_boundary_value :=
           (d_A_macro_edge_boundary_value st)
             [2 * e_id (ex_edge i) := u ! Suc (4 * e_id (ex_edge i)),
              Suc (2 * e_id (ex_edge i)) := u ! Suc (Suc (Suc (4 * e_id (ex_edge i))))] \<rparr>"
  by (simp add: evaluate_edge_boundary_values_def ex_graph_def ex_dof_map_def
      ex_collaborators_def size_t_sub_small Let_def)

lemma ex_boundary_values:
  "evaluate_macro_edge_boundary_values ex_collaborators ex_graph ex_dof_map ex_u
     ((FlowUpwindEvaluator ex_graph)\<lparr> d_current_t := Finite 0 \<rparr>) = ex_state"
  unfolding ex_start evaluate_macro_edge_boundary_values_def ex_active_edges
  by (simp add: ex_edge_step ex_edge_ids ex_u_def ex_state_def)






section \<open>The time stamp guard of the accessors\<close>

text \<open>
  Claim C10. Before the first \<^verbatim>\<open>init\<close> the time stamp is the NaN the constructor stored,
  so both accessors throw "not initialized" whatever time is asked for; and after
  \<^verbatim>\<open>init\<close> was called with NaN as its time they throw for every time as well, NaN included.
\<close>

theorem accessors_throw_on_NaN_time_stamp:
  "get_fluxes_on_macro_edge C D t e u Qs As (FlowUpwindEvaluator G) = Inl NotInitialized
   \<and> get_fluxes_on_nfurcation G t v (FlowUpwindEvaluator G) = Inl NotInitialized
   \<and> get_fluxes_on_macro_edge C D t e u Qs As (snd (snd (init C G D NaN u_prev st)))
       = Inl NotInitialized
   \<and> get_fluxes_on_nfurcation G t v (snd (snd (init C G D NaN u_prev st)))
       = Inl NotInitialized"
  by (simp add: get_fluxes_on_macro_edge_def get_fluxes_on_nfurcation_def init_current_t
      FlowUpwindEvaluator_def)

text \<open>
  Claim C3. After \<^verbatim>\<open>init\<close> at time \<open>t\<close>, an accessor called for time \<open>t'\<close> throws if and only
  if \<open>t'\<close> differs from \<open>t\<close>, where the two times differ when the comparison \<^verbatim>\<open>!=\<close> of the
  guard says so (it does as soon as one of them is NaN). What is thrown is "not
  initialized". \<^verbatim>\<open>get_fluxes_on_nfurcation\<close> fails in no other way, and neither does
  \<^verbatim>\<open>get_fluxes_on_macro_edge\<close> when the two vectors of the caller have the size it asserts.
  The accessors are functions of the evaluator that return no evaluator: a call reads
  the cache and cannot change the state.
\<close>

theorem accessors_throw_iff_time_differs:
  "(get_fluxes_on_nfurcation G t' v (snd (snd (init C G D t u_prev st)))
      = Inl NotInitialized) = double_ne t t'
   \<and> isl (get_fluxes_on_nfurcation G t' v (snd (snd (init C G D t u_prev st))))
       = double_ne t t'
   \<and> (get_fluxes_on_macro_edge C D t' e u Qs As (snd (snd (init C G D t u_prev st)))
      = Inl NotInitialized) = double_ne t t'
   \<and> (length Qs = num_micro_vertices (get_local_dof_map D e)
       \<and> length As = num_micro_vertices (get_local_dof_map D e)
      \<longrightarrow> isl (get_fluxes_on_macro_edge C D t' e u Qs As
                 (snd (snd (init C G D t u_prev st)))) = double_ne t t')"
  by (auto simp add: get_fluxes_on_macro_edge_def get_fluxes_on_nfurcation_def init_current_t
      Let_def)

theorem accessors_throw_iff_time_differs_witness:
  "isl (get_fluxes_on_macro_edge ex_collaborators ex_dof_map (Finite 1) (ex_edge 1) ex_u
       (map Finite [0, 0, 0]) (map Finite [0, 0, 0])
       (snd (snd (init ex_collaborators ex_graph ex_dof_map (Finite 0) ex_u
          (FlowUpwindEvaluator ex_graph)))))
   \<and> \<not> isl (get_fluxes_on_macro_edge ex_collaborators ex_dof_map (Finite 0) (ex_edge 1) ex_u
       (map Finite [0, 0, 0]) (map Finite [0, 0, 0])
       (snd (snd (init ex_collaborators ex_graph ex_dof_map (Finite 0) ex_u
          (FlowUpwindEvaluator ex_graph)))))"
proof -
  have sizes: "length (map Finite [0, 0, 0])
                 = num_micro_vertices (get_local_dof_map ex_dof_map (ex_edge 1))
               \<and> length (map Finite [0, 0, 0])
                 = num_micro_vertices (get_local_dof_map ex_dof_map (ex_edge 1))"
    by (simp add: ex_dof_map_def)
  have ne: "double_ne (Finite 0) (Finite 1)" "\<not> double_ne (Finite 0) (Finite 0)"
    by (simp_all add: double_ne_iff)
  note later = accessors_throw_iff_time_differs [where t = "Finite 0" and t' = "Finite 1"
      and D = ex_dof_map and e = "ex_edge 1" and Qs = "map Finite [0, 0, 0]"
      and As = "map Finite [0, 0, 0]", THEN conjunct2, THEN conjunct2, THEN conjunct2,
      THEN mp, OF sizes]
  note same = accessors_throw_iff_time_differs [where t = "Finite 0" and t' = "Finite 0"
      and D = ex_dof_map and e = "ex_edge 1" and Qs = "map Finite [0, 0, 0]"
      and As = "map Finite [0, 0, 0]", THEN conjunct2, THEN conjunct2, THEN conjunct2,
      THEN mp, OF sizes]
  show ?thesis
    unfolding later same
    using ne by simp
qed

section \<open>Prescribed inflow and free outflow\<close>





section \<open>Windkessel outflow\<close>



text \<open>
  Claim C1, as stated: the Newton solve is damped with the relaxation factor 0.5. It fails
  for vessel 2 of the small network (\<open>G0 = 71442\<close>, \<open>rho = 1\<close>, \<open>A0 = 1\<close>, so \<open>c0 = R1 = 189\<close>)
  with measured flow 850 and area 1 (so \<open>W = 1606\<close>) and capillary pressure \<open>- 69930\<close>: at
  the start the residual is 480 and its derivative \<open>- 8\<close>, the loop of the code steps to
  \<open>1 + 60 / 4 = 16\<close>, where the residual is 0, and caches the area 16 after that one pass.
  The iteration with the factor \<open>1 / 2\<close> steps to 31 first, so it does not return 16 after one
  step.
\<close>

theorem windkessel_newton_not_relaxed_by_half:
  "snd (cached_flux True 2
     (snd (snd (calculate_inout_fluxes_vertex ex_collaborators ex_graph ex_dof_map (Finite 0)
        ex_u 3 ex_state)))) = Finite 16
   \<and> newton_while
        (windkessel_f ex_data_wk (Finite 1606) (Finite (- 69930)) (Finite 189) (Finite 189))
        (windkessel_df ex_data_wk (Finite (- 69930)) (Finite 189) (Finite 189))
        (newton_init (Finite 1))
      = \<lparr> num_iter = 1, error = Finite 0, A_out = Finite 16, cerr = [] \<rparr>
   \<and> \<not> (fst (damped_newton (Finite (1 / 2)) (Finite (1 / 10 ^ 10)) 250
                 (windkessel_f ex_data_wk (Finite 1606) (Finite (- 69930)) (Finite 189) (Finite 189))
                 (windkessel_df ex_data_wk (Finite (- 69930)) (Finite 189) (Finite 189))
                 (Finite 1) 0) = Finite 16
          \<and> snd (snd (damped_newton (Finite (1 / 2)) (Finite (1 / 10 ^ 10)) 250
                 (windkessel_f ex_data_wk (Finite 1606) (Finite (- 69930)) (Finite 189) (Finite 189))
                 (windkessel_df ex_data_wk (Finite (- 69930)) (Finite 189) (Finite 189))
                 (Finite 1) 0)) = 1)"
proof -
  have "cached_flux True 2 (store_flux True 2 (Finite 1504) (Finite 16) ex_state)
        = (Finite 1504, Finite 16)"
    by (rule cached_flux_store_flux) (simp_all add: ex_state_simps)
  then have "snd (cached_flux True 2
     (snd (snd (calculate_inout_fluxes_vertex ex_collaborators ex_graph ex_dof_map (Finite 0)
        ex_u 3 ex_state)))) = Finite 16"
    by (simp add: ex_windkessel_step)
  then show ?thesis using ex_damped_half ex_newton by simp
qed

text \<open>
  Claim C1, amended: for every leaf vertex with a Windkessel outflow the cached area is the
  \<open>A_out\<close> of the Newton loop, and, whenever the error that loop ends with is not NaN, the
  loop is the damped Newton iteration of the specification with relaxation factor \<open>1 / 4\<close>
  (the code's \<^verbatim>\<open>0.5 / 2.\<close>), tolerance \<open>10^-10\<close> on the magnitude of the residual and at
  most 250 steps, started at the measured boundary area: both return the same value after
  the same number of steps. (A NaN residual ends the loop of the code as well; claim C9 is
  about that case.)
\<close>

theorem windkessel_area_by_damped_newton:
  assumes "v = get_vertex G i"
    and "e = get_edge G (edge_neighbors v ! 0)"
    and "inw = is_pointing_to e (v_id v)"
    and "is_leaf v" and "is_windkessel_outflow v"
    and "length (get_vertex_dof_indices D v) = 1"
    and "e_id e < length (d_Q_macro_edge_flux_l st)" and "e_id e < length (d_Q_macro_edge_flux_r st)"
    and "e_id e < length (d_A_macro_edge_flux_l st)" and "e_id e < length (d_A_macro_edge_flux_r st)"
    and "param = edge_data e"
    and "Q = boundary_value inw (e_id e) (d_Q_macro_edge_boundary_value st)"
    and "A = boundary_value inw (e_id e) (d_A_macro_edge_boundary_value st)"
    and "p_c = u ! (get_vertex_dof_indices D v ! 0)"
    and "c0 = dpow (G0 param / (Finite 2 * rho param)) (1 / 2)"
    and "R1 = rho param * c0 / A0 param"
    and "W = (if inw then calculate_W2_value C Q A (G0 param) (rho param) (A0 param)
              else calculate_W1_value C Q A (G0 param) (rho param) (A0 param))"
    and "s = newton_while (windkessel_f param W p_c R1 c0) (windkessel_df param p_c R1 c0)
               (newton_init A)"
    and "error s \<noteq> NaN"
    and "r = damped_newton (Finite (1 / 4)) (Finite (1 / 10 ^ 10)) 250
               (windkessel_f param W p_c R1 c0) (windkessel_df param p_c R1 c0) A 0"
  shows "snd (cached_flux inw (e_id e)
                (snd (snd (calculate_inout_fluxes_vertex C G D t u i st)))) = A_out s
    \<and> A_out s = fst r \<and> num_iter s = int (snd (snd r))"
proof -
  have "snd (cached_flux inw (e_id e)
                (snd (snd (calculate_inout_fluxes_vertex C G D t u i st)))) = A_out s"
    using assms(1-18)
    by (simp add: windkessel_vertex Let_def cached_flux_store_flux)
  moreover have "A_out s = fst r \<and> num_iter s = int (snd (snd r))"
    using assms(19) unfolding assms(18) assms(20) by (rule newton_while_from_init)
  ultimately show ?thesis by simp
qed

theorem windkessel_area_by_damped_newton_witness:
  "snd (cached_flux True 2
     (snd (snd (calculate_inout_fluxes_vertex ex_collaborators ex_graph ex_dof_map (Finite 0)
        ex_u 3 ex_state))))
   = fst (damped_newton (Finite (1 / 4)) (Finite (1 / 10 ^ 10)) 250
            (windkessel_f ex_data_wk (Finite 1606) (Finite (- 69930)) (Finite 189) (Finite 189))
            (windkessel_df ex_data_wk (Finite (- 69930)) (Finite 189) (Finite 189)) (Finite 1) 0)"
proof -
  have v: "ex_vertex 3 = get_vertex ex_graph 3" by (simp add: ex_graph_simps)
  have e: "ex_edge 2 = get_edge ex_graph (edge_neighbors (ex_vertex 3) ! 0)"
    by (simp add: ex_graph_simps ex_vertex_3)
  have inw: "True = is_pointing_to (ex_edge 2) (v_id (ex_vertex 3))"
    using ex_windkessel_inputs(4) by simp
  have bounds: "e_id (ex_edge 2) < length (d_Q_macro_edge_flux_l ex_state)"
    "e_id (ex_edge 2) < length (d_Q_macro_edge_flux_r ex_state)"
    "e_id (ex_edge 2) < length (d_A_macro_edge_flux_l ex_state)"
    "e_id (ex_edge 2) < length (d_A_macro_edge_flux_r ex_state)"
    by (simp_all add: ex_edge_2 ex_state_simps)
  have param: "ex_data_wk = edge_data (ex_edge 2)" by (simp add: ex_edge_2)
  have Q: "Finite 850
           = boundary_value True (e_id (ex_edge 2)) (d_Q_macro_edge_boundary_value ex_state)"
    and A: "Finite 1
           = boundary_value True (e_id (ex_edge 2)) (d_A_macro_edge_boundary_value ex_state)"
    and p_c: "Finite (- 69930) = ex_u ! (get_vertex_dof_indices ex_dof_map (ex_vertex 3) ! 0)"
    using ex_windkessel_inputs(5-7) by simp_all
  have c0: "Finite 189 = dpow (G0 ex_data_wk / (Finite 2 * rho ex_data_wk)) (1 / 2)"
    using ex_c0_half by (simp add: ex_data_wk_simps)
  have R1: "Finite 189 = rho ex_data_wk * Finite 189 / A0 ex_data_wk"
    by (simp add: ex_data_wk_simps)
  have W: "Finite 1606
           = (if True
              then calculate_W2_value ex_collaborators (Finite 850) (Finite 1) (G0 ex_data_wk)
                     (rho ex_data_wk) (A0 ex_data_wk)
              else calculate_W1_value ex_collaborators (Finite 850) (Finite 1) (G0 ex_data_wk)
                     (rho ex_data_wk) (A0 ex_data_wk))"
    using ex_W by (simp add: ex_collaborators_simps ex_data_wk_simps)
  have number: "error (newton_while
       (windkessel_f ex_data_wk (Finite 1606) (Finite (- 69930)) (Finite 189) (Finite 189))
       (windkessel_df ex_data_wk (Finite (- 69930)) (Finite 189) (Finite 189))
       (newton_init (Finite 1))) \<noteq> NaN"
    by (simp add: ex_newton)
  have id: "e_id (ex_edge 2) = 2" by (simp add: ex_edge_2)
  from windkessel_area_by_damped_newton [OF v e inw ex_windkessel_inputs(1-3) bounds param Q A
      p_c c0 R1 W refl number refl, of "Finite 0"]
  show ?thesis unfolding id by simp
qed

text \<open>
  Claim C9 says that the warning is written when and only when the solve fails to
  converge. Vessel 3 of the small network (\<open>G0 = 2\<close>, \<open>rho = 1\<close>, \<open>A0 = 1\<close>, so \<open>c0 = R1 = 1\<close>)
  with measured flow \<open>- 10\<close> and area 1 (so \<open>W = - 6\<close>) and capillary pressure 0 fails
  without a warning: at the start the residual is \<open>- 10\<close> and its derivative \<open>- 2\<close>, the
  first step leads to the area \<open>- 1 / 4\<close>, where the square root and so the residual are
  NaN; a NaN error is not greater than the tolerance, so the loop ends after this one pass
  and writes nothing, and the leaf caches the flow NaN with the area \<open>- 1 / 4\<close>. The loop
  ties the warning to its counter: for every residual, derivative and start value, what
  it has written when it ends is the warning if the counter is 250 and nothing otherwise.
  So a solve whose 250th pass reaches the tolerance is reported as failed: on the
  staircase residual the loop ends with error 0 and the warning.
\<close>

theorem newton_failure_without_warning:
  "newton_while (windkessel_f ex_data (Finite (- 6)) (Finite 0) (Finite 1) (Finite 1))
     (windkessel_df ex_data (Finite 0) (Finite 1) (Finite 1)) (newton_init (Finite 1))
   = \<lparr> num_iter = 1, error = NaN, A_out = Finite (- (1 / 4)), cerr = [] \<rparr>
   \<and> calculate_inout_fluxes_vertex ex_collaborators ex_graph ex_dof_map (Finite 0) ex_u 4 ex_state
     = (None, [], store_flux True 3 NaN (Finite (- (1 / 4))) ex_state)
   \<and> cerr (newton_while f df (newton_init A))
     = (if num_iter (newton_while f df (newton_init A)) = 250
        then [''warning: Newton did not converge''] else [])
   \<and> newton_while stair_f stair_df (newton_init (Finite 0))
     = \<lparr> num_iter = 250, error = Finite 0, A_out = Finite 250,
         cerr = [''warning: Newton did not converge''] \<rparr>"
proof -
  have "cerr (newton_while f df (newton_init A))
     = (if num_iter (newton_while f df (newton_init A)) = 250
        then [''warning: Newton did not converge''] else [])"
    by (rule newton_while_cerr [of _ 0]) (simp_all add: newton_init_def)
  moreover have "newton_while stair_f stair_df (newton_init (Finite 0))
     = \<lparr> num_iter = 250, error = Finite 0, A_out = Finite 250,
         cerr = [''warning: Newton did not converge''] \<rparr>"
    using stair_run [of 0 PosInf] by (simp add: newton_init_def TOL_def)
  ultimately show ?thesis using ex_back_newton ex_back_step by simp
qed

section \<open>Fluxes along a macro edge\<close>

text \<open>
  Claim C8. Called for the time of the cache, with two vectors of one entry per micro
  vertex of the edge (at least two), \<^verbatim>\<open>get_fluxes_on_macro_edge\<close> returns vectors of the
  same length in which the first entries are the left cached flux of the edge, the last
  entries the right cached flux, and the entries of every micro vertex \<open>k\<close> in between are
  one call of \<^verbatim>\<open>solve_W12\<close> on \<open>W1\<close> of the right micro edge \<open>k\<close> at its left quadrature point
  and \<open>W2\<close> of the left micro edge \<open>k - 1\<close> at its right quadrature point. No iteration
  takes part.
\<close>

theorem macro_edge_fluxes_interior_and_ends:
  assumes "\<not> double_ne (d_current_t st) t"
    and "ldm = get_local_dof_map D e"
    and "n = num_micro_vertices ldm"
    and "length Qs = n" and "length As = n" and "2 \<le> n"
    and "param = edge_data e"
    and "h = length_pd param / Finite (real (num_micro_edges ldm))"
    and "qp = (\<lambda>m c. evaluate_dof_at_quadrature_points C Trapezoidal_Rule
                        (size_t_sub (num_basis_functions ldm) 1) h
                        (extract_dof C (dof_indices ldm m c) u))"
  shows "\<exists>Q' A'. get_fluxes_on_macro_edge C D t e u Qs As st = Inr (Q', A')
    \<and> length Q' = n \<and> length A' = n
    \<and> Q' ! 0 = d_Q_macro_edge_flux_l st ! e_id e
    \<and> A' ! 0 = d_A_macro_edge_flux_l st ! e_id e
    \<and> Q' ! (n - 1) = d_Q_macro_edge_flux_r st ! e_id e
    \<and> A' ! (n - 1) = d_A_macro_edge_flux_r st ! e_id e
    \<and> (\<forall>k. 1 \<le> k \<and> k < n - 1 \<longrightarrow>
          (Q' ! k, A' ! k)
            = solve_W12 C
                (calculate_W1_value C (qp k 0 ! 0) (qp k 1 ! 0) (G0 param) (rho param) (A0 param))
                (calculate_W2_value C (qp (k - 1) 0 ! 1) (qp (k - 1) 1 ! 1)
                   (G0 param) (rho param) (A0 param))
                (G0 param) (rho param) (A0 param))"
proof -
  let ?g = "interior_flux C ldm param h u"
  obtain Q1 A1 where QA:
    "fold (\<lambda>k (Qs, As). let up = ?g k in (Qs[k := fst up], As[k := snd up])) [1 ..< n - 1] (Qs, As)
       = (Q1, A1)"
    by (cases "fold (\<lambda>k (Qs, As). let up = ?g k in (Qs[k := fst up], As[k := snd up]))
                 [1 ..< n - 1] (Qs, As)") auto
  note F = fold_interior [OF QA]
  have len: "length Q1 = n" "length A1 = n" using F assms(4,5) by simp_all
  have last_id: "size_t_sub n (Suc 0) = n - Suc 0" using assms(6) by (simp add: size_t_sub_def)
  let ?Q' = "Q1[0 := d_Q_macro_edge_flux_l st ! e_id e, n - 1 := d_Q_macro_edge_flux_r st ! e_id e]"
  let ?A' = "A1[0 := d_A_macro_edge_flux_l st ! e_id e, n - 1 := d_A_macro_edge_flux_r st ! e_id e]"
  have res: "get_fluxes_on_macro_edge C D t e u Qs As st = Inr (?Q', ?A')"
    using assms(1,4,5) QA
    by (simp add: get_fluxes_on_macro_edge_def Let_def assms(2,3,7,8) [symmetric] last_id)
  have interior: "(?Q' ! k, ?A' ! k)
            = solve_W12 C
                (calculate_W1_value C (qp k 0 ! 0) (qp k 1 ! 0) (G0 param) (rho param) (A0 param))
                (calculate_W2_value C (qp (k - 1) 0 ! 1) (qp (k - 1) 1 ! 1)
                   (G0 param) (rho param) (A0 param))
                (G0 param) (rho param) (A0 param)"
    if k: "1 \<le> k" "k < n - 1" for k
  proof -
    have "k \<in> set [1 ..< n - 1]" "k < length Qs" "k < length As" using k assms(4,5) by simp_all
    then have "Q1 ! k = fst (?g k)" "A1 ! k = snd (?g k)" using F by simp_all
    moreover have "?Q' ! k = Q1 ! k" "?A' ! k = A1 ! k" using k by simp_all
    moreover have "size_t_sub k (Suc 0) = k - Suc 0" using k by (simp add: size_t_sub_def)
    then have "?g k = solve_W12 C
                (calculate_W1_value C (qp k 0 ! 0) (qp k 1 ! 0) (G0 param) (rho param) (A0 param))
                (calculate_W2_value C (qp (k - 1) 0 ! 1) (qp (k - 1) 1 ! 1)
                   (G0 param) (rho param) (A0 param))
                (G0 param) (rho param) (A0 param)"
      by (simp add: interior_flux_def Let_def assms(9))
    ultimately show ?thesis by simp
  qed
  have ends: "?Q' ! 0 = d_Q_macro_edge_flux_l st ! e_id e"
    "?A' ! 0 = d_A_macro_edge_flux_l st ! e_id e"
    "?Q' ! (n - 1) = d_Q_macro_edge_flux_r st ! e_id e"
    "?A' ! (n - 1) = d_A_macro_edge_flux_r st ! e_id e"
    using len assms(6) by (simp_all add: nth_list_update)
  show ?thesis
    using res len ends interior by (intro exI [of _ ?Q'] exI [of _ ?A']) simp
qed

theorem macro_edge_fluxes_interior_and_ends_witness:
  "get_fluxes_on_macro_edge ex_collaborators ex_dof_map (Finite 0) (ex_edge 1) ex_u
     (map Finite [0, 0, 0]) (map Finite [0, 0, 0]) ex_state_up
   = Inr (map Finite [11, 0, 19], map Finite [2, 1, 5])"
proof -
  let ?ldm = "get_local_dof_map ex_dof_map (ex_edge 1)"
  let ?h = "length_pd (edge_data (ex_edge 1)) / Finite (real (num_micro_edges ?ldm))"
  let ?qp = "\<lambda>m c. evaluate_dof_at_quadrature_points ex_collaborators Trapezoidal_Rule
                       (size_t_sub (num_basis_functions ?ldm) 1) ?h
                       (extract_dof ex_collaborators (dof_indices ?ldm m c) ex_u)"
  have t: "\<not> double_ne (d_current_t ex_state_up) (Finite 0)" by (simp add: ex_state_up_def)
  have n: "3 = num_micro_vertices ?ldm" by (simp add: ex_dof_map_def)
  have len: "length (map Finite [0, 0, 0]) = 3" by simp
  have two: "(2::nat) \<le> 3" by simp
  from macro_edge_fluxes_interior_and_ends [OF t refl n len len two refl refl refl,
      of ex_collaborators ex_u]
  obtain Q' A' where res:
      "get_fluxes_on_macro_edge ex_collaborators ex_dof_map (Finite 0) (ex_edge 1) ex_u
         (map Finite [0, 0, 0]) (map Finite [0, 0, 0]) ex_state_up = Inr (Q', A')"
    and lens: "length Q' = 3" "length A' = 3"
    and ends: "Q' ! 0 = d_Q_macro_edge_flux_l ex_state_up ! e_id (ex_edge 1)"
      "A' ! 0 = d_A_macro_edge_flux_l ex_state_up ! e_id (ex_edge 1)"
      "Q' ! (3 - 1) = d_Q_macro_edge_flux_r ex_state_up ! e_id (ex_edge 1)"
      "A' ! (3 - 1) = d_A_macro_edge_flux_r ex_state_up ! e_id (ex_edge 1)"
    and inner: "\<forall>k. 1 \<le> k \<and> k < 3 - 1 \<longrightarrow>
          (Q' ! k, A' ! k)
            = solve_W12 ex_collaborators
                (calculate_W1_value ex_collaborators (?qp k 0 ! 0) (?qp k 1 ! 0)
                   (G0 (edge_data (ex_edge 1))) (rho (edge_data (ex_edge 1)))
                   (A0 (edge_data (ex_edge 1))))
                (calculate_W2_value ex_collaborators (?qp (k - 1) 0 ! 1) (?qp (k - 1) 1 ! 1)
                   (G0 (edge_data (ex_edge 1))) (rho (edge_data (ex_edge 1)))
                   (A0 (edge_data (ex_edge 1))))
                (G0 (edge_data (ex_edge 1))) (rho (edge_data (ex_edge 1)))
                (A0 (edge_data (ex_edge 1)))"
    by blast
  have "(Q' ! 1, A' ! 1)
      = solve_W12_spec
          (calculate_W1_value_spec (Finite 0) (Finite 1) (Finite 2) (Finite 1) (Finite 1))
          (calculate_W2_value_spec (Finite 0) (Finite 1) (Finite 2) (Finite 1) (Finite 1))
          (Finite 2) (Finite 1) (Finite 1)"
    using inner [rule_format, of 1]
    by (simp add: ex_collaborators_def ex_dof_map_def ex_edge_def ex_u_def ex_data_def)
  also have "\<dots> = (Finite 0, Finite 1)" by (rule solve_W12_spec_at_rest) simp_all
  finally have mid: "Q' ! 1 = Finite 0" "A' ! 1 = Finite 1" by simp_all
  have Q: "Q' = map Finite [11, 0, 19]"
    using list3 [OF lens(1)] ends(1,3) mid(1) by (simp add: ex_edge_def ex_state_up_def)
  have A: "A' = map Finite [2, 1, 5]"
    using list3 [OF lens(2)] ends(2,4) mid(2) by (simp add: ex_edge_def ex_state_up_def)
  show ?thesis unfolding res Q A ..
qed

section \<open>The order of the phases of a time step\<close>

text \<open>
  Claim C7. In \<^verbatim>\<open>init\<close> the boundary values of all active edges are read first, then the
  ghost layers of the flows and of the areas are exchanged, and only then are vertices
  resolved. Whichever vertex \<open>i\<close> of the active list is taken, its bifurcation step and its
  leaf step run on an evaluator whose boundary values are the exchanged ones and whose
  time stamp is \<open>t\<close>, and \<^verbatim>\<open>init\<close> returns what these steps, run there, lead to. The
  exchange is one blocking call, as the specification has it.
\<close>

theorem vertex_resolution_reads_synchronized_values:
  assumes "get_active_vertex_ids G = pre @ i # post"
  shows
    "let st2 = evaluate_macro_edge_boundary_values C G D u (st\<lparr> d_current_t := t \<rparr>);
         Qs = update_ghost_layer C (d_Q_macro_edge_boundary_value st2);
         As = update_ghost_layer C (d_A_macro_edge_boundary_value st2);
         st4 = st2\<lparr> d_Q_macro_edge_boundary_value := Qs,
                    d_A_macro_edge_boundary_value := As \<rparr>;
         sb = fold (calculate_nfurcation_fluxes_vertex C G) pre st4;
         st5 = fold (calculate_nfurcation_fluxes_vertex C G) post
                 (calculate_nfurcation_fluxes_vertex C G i sb);
         before = calculate_inout_fluxes_loop C G D t u pre [] st5;
         sl = snd (snd before)
     in d_Q_macro_edge_boundary_value sb = Qs \<and> d_A_macro_edge_boundary_value sb = As
        \<and> d_current_t sb = t
        \<and> d_Q_macro_edge_boundary_value sl = Qs \<and> d_A_macro_edge_boundary_value sl = As
        \<and> d_current_t sl = t
        \<and> init C G D t u st =
            (case fst before of
               Some x \<Rightarrow> before
             | None \<Rightarrow>
                (case calculate_inout_fluxes_vertex C G D t u i sl of
                   (Some x, lines, s') \<Rightarrow> (Some x, fst (snd before) @ lines, s')
                 | (None, lines, s') \<Rightarrow>
                     calculate_inout_fluxes_loop C G D t u post (fst (snd before) @ lines) s'))"
proof -
  define st2 where "st2 = evaluate_macro_edge_boundary_values C G D u (st\<lparr> d_current_t := t \<rparr>)"
  define Qs where "Qs = update_ghost_layer C (d_Q_macro_edge_boundary_value st2)"
  define As where "As = update_ghost_layer C (d_A_macro_edge_boundary_value st2)"
  define st4 where "st4 = st2\<lparr> d_Q_macro_edge_boundary_value := Qs,
                    d_A_macro_edge_boundary_value := As \<rparr>"
  define sb where "sb = fold (calculate_nfurcation_fluxes_vertex C G) pre st4"
  define st5 where "st5 = fold (calculate_nfurcation_fluxes_vertex C G) post
                 (calculate_nfurcation_fluxes_vertex C G i sb)"
  define before where "before = calculate_inout_fluxes_loop C G D t u pre [] st5"
  define sl where "sl = snd (snd before)"
  have t2: "d_current_t st2 = t"
    by (simp add: st2_def evaluate_macro_edge_boundary_values_t)
  have b1: "d_Q_macro_edge_boundary_value sb = Qs" "d_A_macro_edge_boundary_value sb = As"
    "d_current_t sb = t"
    by (simp_all add: sb_def fold_nfurcation_boundary st4_def t2)
  have s5: "d_Q_macro_edge_boundary_value st5 = Qs" "d_A_macro_edge_boundary_value st5 = As"
    "d_current_t st5 = t"
    by (simp_all add: st5_def fold_nfurcation_boundary calculate_nfurcation_fluxes_vertex_boundary
        calculate_nfurcation_fluxes_vertex_t b1)
  have l1: "d_Q_macro_edge_boundary_value sl = Qs"
    unfolding sl_def before_def
    by (simp add: calculate_inout_fluxes_loop_keeps [where g = d_Q_macro_edge_boundary_value]
        calculate_inout_fluxes_vertex_boundary s5)
  have l2: "d_A_macro_edge_boundary_value sl = As"
    unfolding sl_def before_def
    by (simp add: calculate_inout_fluxes_loop_keeps [where g = d_A_macro_edge_boundary_value]
        calculate_inout_fluxes_vertex_boundary s5)
  have l3: "d_current_t sl = t"
    unfolding sl_def before_def by (simp add: calculate_inout_fluxes_loop_t s5)
  have st5': "calculate_nfurcation_fluxes C G st4 = st5"
    by (simp add: calculate_nfurcation_fluxes_def assms st5_def sb_def)
  have i1: "init C G D t u st = calculate_inout_fluxes_loop C G D t u (pre @ i # post) [] st5"
    by (simp add: init_def Let_def calculate_inout_fluxes_def assms st5' [symmetric] st4_def
        Qs_def As_def st2_def)
  have i2: "init C G D t u st =
            (case fst before of
               Some x \<Rightarrow> before
             | None \<Rightarrow>
                (case calculate_inout_fluxes_vertex C G D t u i sl of
                   (Some x, lines, s') \<Rightarrow> (Some x, fst (snd before) @ lines, s')
                 | (None, lines, s') \<Rightarrow>
                     calculate_inout_fluxes_loop C G D t u post (fst (snd before) @ lines) s'))"
    unfolding i1 calculate_inout_fluxes_loop_append sl_def
    by (cases before) (auto simp add: before_def [symmetric] split: option.splits prod.splits)
  show ?thesis
    unfolding Let_def
    using b1 l1 l2 l3 i2
    unfolding sl_def before_def st5_def sb_def st4_def As_def Qs_def st2_def
    by simp
qed

theorem vertex_resolution_reads_synchronized_values_witness:
  "get_active_vertex_ids ex_graph = [0, 1, 2] @ 3 # [4]
   \<and> d_Q_macro_edge_boundary_value
       (snd (snd (calculate_inout_fluxes_loop ex_collaborators ex_graph ex_dof_map (Finite 0)
          ex_u [0, 1, 2] []
          (fold (calculate_nfurcation_fluxes_vertex ex_collaborators ex_graph) [4]
             (calculate_nfurcation_fluxes_vertex ex_collaborators ex_graph 3
                (fold (calculate_nfurcation_fluxes_vertex ex_collaborators ex_graph) [0, 1, 2]
                   ex_state))))))
     = map Finite [5, 5, 0, 0, 850, 850, - 10, - 10]"
proof -
  have ids: "get_active_vertex_ids ex_graph = [0, 1, 2] @ 3 # [4]"
    by (simp add: ex_graph_def)
  have same: "ex_state\<lparr> d_Q_macro_edge_boundary_value :=
                  update_ghost_layer ex_collaborators (d_Q_macro_edge_boundary_value ex_state),
                d_A_macro_edge_boundary_value :=
                  update_ghost_layer ex_collaborators (d_A_macro_edge_boundary_value ex_state) \<rparr>
              = ex_state"
    by (simp add: ex_collaborators_def)
  have Qs: "update_ghost_layer ex_collaborators (d_Q_macro_edge_boundary_value ex_state)
              = map Finite [5, 5, 0, 0, 850, 850, - 10, - 10]"
    by (simp add: ex_collaborators_def ex_state_def)
  note all = vertex_resolution_reads_synchronized_values [where G = ex_graph
      and pre = "[0, 1, 2]" and i = 3 and post = "[4]" and C = ex_collaborators
      and D = ex_dof_map and u = ex_u and st = "FlowUpwindEvaluator ex_graph"
      and t = "Finite 0", OF ids, unfolded Let_def ex_boundary_values same]
  note leaf = all [THEN conjunct2, THEN conjunct2, THEN conjunct2, THEN conjunct1]
  show ?thesis
    using ids leaf unfolding Qs by (rule conjI)
qed

end
